theory Spec2Isabelle
  imports Complex_Main
begin

section \<open>Python and numpy values\<close>

text \<open>
  A Python float (numpy float64) is a finite number or one of the three special values.
  Arithmetic on finite numbers is exact arithmetic on the reals: rounding, overflow and
  the sign of zero are left out of the model. Comparisons and special values follow
  IEEE 754: every comparison with NaN is false.
\<close>

datatype pyfloat = Fin real | PInf | NInf | NaN

text \<open>An exception, with the text that \<open>str(e)\<close> gives; the texts of the interpreter's
  and numpy's own errors are abbreviated.\<close>

datatype py_error = ValueError string | TypeError string | IndexError string

fun err_msg :: "py_error \<Rightarrow> string" where
  "err_msg (ValueError m) = m"
| "err_msg (TypeError m) = m"
| "err_msg (IndexError m) = m"

definition bind_err :: "'e + 'a \<Rightarrow> ('a \<Rightarrow> 'e + 'b) \<Rightarrow> 'e + 'b" where
  "bind_err m f = (case m of Inl e \<Rightarrow> Inl e | Inr x \<Rightarrow> f x)"

fun is_finite :: "pyfloat \<Rightarrow> bool" where
  "is_finite (Fin x) = True"
| "is_finite PInf = False"
| "is_finite NInf = False"
| "is_finite NaN = False"

fun fl_lt :: "pyfloat \<Rightarrow> pyfloat \<Rightarrow> bool" where
  "fl_lt (Fin a) (Fin b) = (a < b)"
| "fl_lt (Fin a) PInf = True"
| "fl_lt NInf (Fin b) = True"
| "fl_lt NInf PInf = True"
| "fl_lt a b = False"

definition fl_gt :: "pyfloat \<Rightarrow> pyfloat \<Rightarrow> bool" where
  "fl_gt a b = fl_lt b a"

fun fl_eq :: "pyfloat \<Rightarrow> pyfloat \<Rightarrow> bool" where
  "fl_eq (Fin a) (Fin b) = (a = b)"
| "fl_eq PInf PInf = True"
| "fl_eq NInf NInf = True"
| "fl_eq a b = False"

definition fl_ne :: "pyfloat \<Rightarrow> pyfloat \<Rightarrow> bool" where
  "fl_ne a b = (\<not> fl_eq a b)"

definition fl_le :: "pyfloat \<Rightarrow> pyfloat \<Rightarrow> bool" where
  "fl_le a b = (fl_lt a b \<or> fl_eq a b)"

definition fl_ge :: "pyfloat \<Rightarrow> pyfloat \<Rightarrow> bool" where
  "fl_ge a b = fl_le b a"

fun fl_neg :: "pyfloat \<Rightarrow> pyfloat" where
  "fl_neg (Fin a) = Fin (- a)"
| "fl_neg PInf = NInf"
| "fl_neg NInf = PInf"
| "fl_neg NaN = NaN"

fun fl_abs :: "pyfloat \<Rightarrow> pyfloat" where
  "fl_abs (Fin a) = Fin \<bar>a\<bar>"
| "fl_abs PInf = PInf"
| "fl_abs NInf = PInf"
| "fl_abs NaN = NaN"

fun fl_add :: "pyfloat \<Rightarrow> pyfloat \<Rightarrow> pyfloat" where
  "fl_add (Fin a) (Fin b) = Fin (a + b)"
| "fl_add NaN b = NaN"
| "fl_add a NaN = NaN"
| "fl_add PInf NInf = NaN"
| "fl_add NInf PInf = NaN"
| "fl_add PInf b = PInf"
| "fl_add a PInf = PInf"
| "fl_add NInf b = NInf"
| "fl_add a NInf = NInf"

definition fl_sub :: "pyfloat \<Rightarrow> pyfloat \<Rightarrow> pyfloat" where
  "fl_sub a b = fl_add a (fl_neg b)"

text \<open>The sign of an infinite product or quotient; a zero counts as positive zero.\<close>

definition signed_inf :: "bool \<Rightarrow> pyfloat" where
  "signed_inf positive = (if positive then PInf else NInf)"

fun fl_mul :: "pyfloat \<Rightarrow> pyfloat \<Rightarrow> pyfloat" where
  "fl_mul (Fin a) (Fin b) = Fin (a * b)"
| "fl_mul NaN b = NaN"
| "fl_mul a NaN = NaN"
| "fl_mul (Fin a) PInf = (if a = 0 then NaN else signed_inf (0 < a))"
| "fl_mul (Fin a) NInf = (if a = 0 then NaN else signed_inf (a < 0))"
| "fl_mul PInf (Fin b) = (if b = 0 then NaN else signed_inf (0 < b))"
| "fl_mul NInf (Fin b) = (if b = 0 then NaN else signed_inf (b < 0))"
| "fl_mul PInf PInf = PInf"
| "fl_mul NInf NInf = PInf"
| "fl_mul PInf NInf = NInf"
| "fl_mul NInf PInf = NInf"

text \<open>
  numpy division: a zero divisor gives an infinity or NaN (with a warning), never an
  exception.
\<close>

fun fl_div :: "pyfloat \<Rightarrow> pyfloat \<Rightarrow> pyfloat" where
  "fl_div (Fin a) (Fin b) =
     (if b = 0 then (if a = 0 then NaN else signed_inf (0 < a)) else Fin (a / b))"
| "fl_div NaN b = NaN"
| "fl_div a NaN = NaN"
| "fl_div (Fin a) PInf = Fin 0"
| "fl_div (Fin a) NInf = Fin 0"
| "fl_div PInf (Fin b) = signed_inf (0 \<le> b)"
| "fl_div NInf (Fin b) = signed_inf (b < 0)"
| "fl_div a b = NaN"

fun fl_sqrt :: "pyfloat \<Rightarrow> pyfloat" where
  "fl_sqrt (Fin a) = (if a < 0 then NaN else Fin (sqrt a))"
| "fl_sqrt PInf = PInf"
| "fl_sqrt NInf = NaN"
| "fl_sqrt NaN = NaN"

text \<open>\<open>np.minimum\<close> and \<open>np.maximum\<close> propagate NaN.\<close>

definition fl_minimum :: "pyfloat \<Rightarrow> pyfloat \<Rightarrow> pyfloat" where
  "fl_minimum a b = (if a = NaN \<or> b = NaN then NaN else if fl_lt b a then b else a)"

definition fl_maximum :: "pyfloat \<Rightarrow> pyfloat \<Rightarrow> pyfloat" where
  "fl_maximum a b = (if a = NaN \<or> b = NaN then NaN else if fl_lt a b then b else a)"

text \<open>Python's built-in \<open>min(a, b)\<close> and \<open>max(a, b)\<close>: the first argument stays unless
  the second compares strictly smaller (greater).\<close>

definition py_min2 :: "pyfloat \<Rightarrow> pyfloat \<Rightarrow> pyfloat" where
  "py_min2 a b = (if fl_lt b a then b else a)"

definition py_max2 :: "pyfloat \<Rightarrow> pyfloat \<Rightarrow> pyfloat" where
  "py_max2 a b = (if fl_gt b a then b else a)"

subsection \<open>One-dimensional numpy arrays\<close>

text \<open>
  A one-dimensional array is a list. A binary operation broadcasts: equal lengths work
  elementwise, a length-1 operand is stretched, any other mismatch raises ValueError.
\<close>

definition np_binop ::
  "(pyfloat \<Rightarrow> pyfloat \<Rightarrow> 'a) \<Rightarrow> pyfloat list \<Rightarrow> pyfloat list \<Rightarrow> py_error + 'a list" where
  "np_binop f xs ys =
     (if length xs = length ys then Inr (map2 f xs ys)
      else if length xs = 1 then Inr (map (f (hd xs)) ys)
      else if length ys = 1 then Inr (map (\<lambda>x. f x (hd ys)) xs)
      else Inl (ValueError ''operands could not be broadcast together''))"

definition np_add :: "pyfloat list \<Rightarrow> pyfloat list \<Rightarrow> py_error + pyfloat list" where
  "np_add = np_binop fl_add"

definition np_sub :: "pyfloat list \<Rightarrow> pyfloat list \<Rightarrow> py_error + pyfloat list" where
  "np_sub = np_binop fl_sub"

definition np_div :: "pyfloat list \<Rightarrow> pyfloat list \<Rightarrow> py_error + pyfloat list" where
  "np_div = np_binop fl_div"

text \<open>
  An array times a scalar. The float64 product is rounded and may overflow, so the
  multiplication is a parameter \<open>fmul\<close> of the model: nothing is assumed about the value
  of a product.
\<close>

definition np_scale ::
  "(pyfloat \<Rightarrow> pyfloat \<Rightarrow> pyfloat) \<Rightarrow> pyfloat list \<Rightarrow> pyfloat \<Rightarrow> pyfloat list" where
  "np_scale fmul xs c = map (\<lambda>x. fmul x c) xs"

definition np_clip :: "pyfloat list \<Rightarrow> pyfloat \<Rightarrow> pyfloat \<Rightarrow> pyfloat list" where
  "np_clip xs lo hi = map (\<lambda>x. fl_minimum (fl_maximum x lo) hi) xs"

definition np_full :: "nat \<Rightarrow> pyfloat \<Rightarrow> pyfloat list" where
  "np_full n v = replicate n v"

definition np_min :: "pyfloat list \<Rightarrow> py_error + pyfloat" where
  "np_min xs =
     (case xs of
        [] \<Rightarrow> Inl (ValueError ''zero-size array to reduction operation minimum which has no identity'')
      | y # ys \<Rightarrow> Inr (foldl fl_minimum y ys))"

definition np_max :: "pyfloat list \<Rightarrow> py_error + pyfloat" where
  "np_max xs =
     (case xs of
        [] \<Rightarrow> Inl (ValueError ''zero-size array to reduction operation maximum which has no identity'')
      | y # ys \<Rightarrow> Inr (foldl fl_maximum y ys))"

text \<open>\<open>np.mean\<close> of an empty array is NaN (0/0, with a warning).\<close>

definition np_mean :: "pyfloat list \<Rightarrow> pyfloat" where
  "np_mean xs = fl_div (foldl fl_add (Fin 0) xs) (Fin (real (length xs)))"

definition np_std :: "pyfloat list \<Rightarrow> pyfloat" where
  "np_std xs =
     (let m = np_mean xs
      in fl_sqrt (np_mean (map (\<lambda>x. fl_mul (fl_abs (fl_sub x m)) (fl_abs (fl_sub x m))) xs)))"

fun fl_insort :: "pyfloat \<Rightarrow> pyfloat list \<Rightarrow> pyfloat list" where
  "fl_insort x [] = [x]"
| "fl_insort x (y # ys) = (if fl_lt y x then y # fl_insort x ys else x # y # ys)"

definition fl_sort :: "pyfloat list \<Rightarrow> pyfloat list" where
  "fl_sort xs = foldr fl_insort xs []"

text \<open>\<open>np.median\<close>: NaN for an empty array or one that holds a NaN, else the middle of
  the sorted values (the mean of the two middle ones for an even count).\<close>

definition np_median :: "pyfloat list \<Rightarrow> pyfloat" where
  "np_median xs =
     (if xs = [] \<or> NaN \<in> set xs then NaN
      else let s = fl_sort xs; n = length xs
           in if odd n then s ! (n div 2)
              else fl_div (fl_add (s ! (n div 2 - 1)) (s ! (n div 2))) (Fin 2))"

section \<open>Index engine: \<open>utils/ndvi.py\<close>\<close>

text \<open>
  Each function computes inside \<open>try\<close> and returns an empty array from \<open>except\<close>.
  The \<open>_try\<close> function is the body of the \<open>try\<close> block; the last two steps are the
  \<open>np.min\<close> and \<open>np.max\<close> of the log line, which raise on an empty array.
\<close>

definition eps_guard :: "pyfloat list \<Rightarrow> pyfloat list" where
  "eps_guard denominator =
     map (\<lambda>d. if fl_eq d (Fin 0) then Fin (1 / 10 ^ 10) else d) denominator"

definition calculate_ndvi_try :: "pyfloat list \<Rightarrow> pyfloat list \<Rightarrow> py_error + pyfloat list" where
  "calculate_ndvi_try red_band nir_band =
     bind_err (np_add nir_band red_band) (\<lambda>denominator.
     bind_err (np_sub nir_band red_band) (\<lambda>numerator.
     bind_err (np_div numerator (eps_guard denominator)) (\<lambda>ndvi.
     bind_err (np_min (np_clip ndvi (Fin (- 1)) (Fin 1))) (\<lambda>lo.
     bind_err (np_max (np_clip ndvi (Fin (- 1)) (Fin 1))) (\<lambda>hi.
     Inr (np_clip ndvi (Fin (- 1)) (Fin 1)))))))"

definition calculate_ndvi :: "pyfloat list \<Rightarrow> pyfloat list \<Rightarrow> py_error + pyfloat list" where
  "calculate_ndvi red_band nir_band =
     (case calculate_ndvi_try red_band nir_band of
        Inl e \<Rightarrow> Inr []
      | Inr ndvi \<Rightarrow> Inr ndvi)"

definition calculate_ndwi_try :: "pyfloat list \<Rightarrow> pyfloat list \<Rightarrow> py_error + pyfloat list" where
  "calculate_ndwi_try nir_band swir_band =
     bind_err (np_add nir_band swir_band) (\<lambda>denominator.
     bind_err (np_sub nir_band swir_band) (\<lambda>numerator.
     bind_err (np_div numerator (eps_guard denominator)) (\<lambda>ndwi.
     bind_err (np_min (np_clip ndwi (Fin (- 1)) (Fin 1))) (\<lambda>lo.
     bind_err (np_max (np_clip ndwi (Fin (- 1)) (Fin 1))) (\<lambda>hi.
     Inr (np_clip ndwi (Fin (- 1)) (Fin 1)))))))"

definition calculate_ndwi :: "pyfloat list \<Rightarrow> pyfloat list \<Rightarrow> py_error + pyfloat list" where
  "calculate_ndwi nir_band swir_band =
     (case calculate_ndwi_try nir_band swir_band of
        Inl e \<Rightarrow> Inr []
      | Inr ndwi \<Rightarrow> Inr ndwi)"

definition calculate_mndwi_try :: "pyfloat list \<Rightarrow> pyfloat list \<Rightarrow> py_error + pyfloat list" where
  "calculate_mndwi_try green_band swir_band =
     bind_err (np_add green_band swir_band) (\<lambda>denominator.
     bind_err (np_sub green_band swir_band) (\<lambda>numerator.
     bind_err (np_div numerator (eps_guard denominator)) (\<lambda>mndwi.
     bind_err (np_min (np_clip mndwi (Fin (- 1)) (Fin 1))) (\<lambda>lo.
     bind_err (np_max (np_clip mndwi (Fin (- 1)) (Fin 1))) (\<lambda>hi.
     Inr (np_clip mndwi (Fin (- 1)) (Fin 1)))))))"

definition calculate_mndwi :: "pyfloat list \<Rightarrow> pyfloat list \<Rightarrow> py_error + pyfloat list" where
  "calculate_mndwi green_band swir_band =
     (case calculate_mndwi_try green_band swir_band of
        Inl e \<Rightarrow> Inr []
      | Inr mndwi \<Rightarrow> Inr mndwi)"

definition calculate_ndsi_try :: "pyfloat list \<Rightarrow> pyfloat list \<Rightarrow> py_error + pyfloat list" where
  "calculate_ndsi_try green_band swir_band =
     bind_err (np_add green_band swir_band) (\<lambda>denominator.
     bind_err (np_sub green_band swir_band) (\<lambda>numerator.
     bind_err (np_div numerator (eps_guard denominator)) (\<lambda>ndsi.
     bind_err (np_min (np_clip ndsi (Fin (- 1)) (Fin 1))) (\<lambda>lo.
     bind_err (np_max (np_clip ndsi (Fin (- 1)) (Fin 1))) (\<lambda>hi.
     Inr (np_clip ndsi (Fin (- 1)) (Fin 1)))))))"

definition calculate_ndsi :: "pyfloat list \<Rightarrow> pyfloat list \<Rightarrow> py_error + pyfloat list" where
  "calculate_ndsi green_band swir_band =
     (case calculate_ndsi_try green_band swir_band of
        Inl e \<Rightarrow> Inr []
      | Inr ndsi \<Rightarrow> Inr ndsi)"

section \<open>Hyperspectral analyzer: \<open>utils/hyperspectral_analysis.py\<close>\<close>

text \<open>
  The band dictionary, read with \<open>spectral_data.get(name, [])\<close>: an absent band is the
  empty array.
\<close>

record spectral_data =
  sd_red :: "pyfloat list"
  sd_green :: "pyfloat list"
  sd_nir :: "pyfloat list"
  sd_swir :: "pyfloat list"

record index_stats =
  st_mean :: pyfloat
  st_std :: pyfloat
  st_min :: pyfloat
  st_max :: pyfloat
  st_median :: pyfloat
  st_values :: "pyfloat list"

text \<open>\<open>get_stats\<close>: of its five reductions only \<open>np.min\<close> and \<open>np.max\<close> raise on an
  empty array.\<close>

definition get_stats :: "pyfloat list \<Rightarrow> py_error + index_stats" where
  "get_stats vals =
     bind_err (np_min vals) (\<lambda>lo.
     bind_err (np_max vals) (\<lambda>hi.
     Inr \<lparr>st_mean = np_mean vals, st_std = np_std vals, st_min = lo, st_max = hi,
          st_median = np_median vals, st_values = vals\<rparr>))"

text \<open>\<open>np.where((a + b) != 0, (a - b) / (a + b), 0)\<close>, written out once; the source
  repeats it for every index. Sums, differences and quotients of finite values are taken in
  the reals. A float64 sum of two finite values is zero exactly when their real sum is, so
  the zero test is the one of the code on the values it is given; the quotient of the code
  is the rounded real quotient, and is infinite or NaN once a sum or difference overflows.\<close>

definition np_where0 :: "bool list \<Rightarrow> pyfloat list \<Rightarrow> pyfloat list" where
  "np_where0 cond xs = map2 (\<lambda>c x. if c then x else Fin 0) cond xs"

definition where_ratio :: "pyfloat list \<Rightarrow> pyfloat list \<Rightarrow> py_error + pyfloat list" where
  "where_ratio a b =
     bind_err (np_add a b) (\<lambda>total.
     bind_err (np_sub a b) (\<lambda>diff.
     bind_err (np_div diff total) (\<lambda>quotient.
     Inr (np_where0 (map (\<lambda>d. fl_ne d (Fin 0)) total) quotient))))"

text \<open>
  The analyzer multiplies only in the red-edge approximation (\<open>nir * 1.1\<close>,
  \<open>red * 0.9\<close>); \<open>fmul\<close> is that float64 multiplication.
\<close>

definition calculate_spectral_indices_try ::
  "(pyfloat \<Rightarrow> pyfloat \<Rightarrow> pyfloat) \<Rightarrow> spectral_data \<Rightarrow> pyfloat option
     \<Rightarrow> py_error + (string \<times> index_stats) list" where
  "calculate_spectral_indices_try fmul spectral real_ndvi =
     (let red = sd_red spectral; green = sd_green spectral;
          nir = sd_nir spectral; swir = sd_swir spectral
      in if length red = 0 \<or> length nir = 0
         then Inl (ValueError ''Insufficient spectral data'')
         else
           bind_err (case real_ndvi of
                       Some v \<Rightarrow>
                         Inr (np_full (if length red > 0 then length red
                                       else if length nir > 0 then length nir else 100) v)
                     | None \<Rightarrow> where_ratio nir red) (\<lambda>ndvi.
           bind_err (where_ratio nir swir) (\<lambda>ndwi.
           bind_err (where_ratio green swir) (\<lambda>mndwi.
           bind_err (where_ratio swir green) (\<lambda>ndsi.
           bind_err (where_ratio (np_scale fmul nir (Fin 1.1)) (np_scale fmul red (Fin 0.9)))
             (\<lambda>red_edge_ndvi.
           bind_err (get_stats ndvi) (\<lambda>s_ndvi.
           bind_err (get_stats ndwi) (\<lambda>s_ndwi.
           bind_err (get_stats mndwi) (\<lambda>s_mndwi.
           bind_err (get_stats ndsi) (\<lambda>s_ndsi.
           bind_err (get_stats red_edge_ndvi) (\<lambda>s_red_edge.
           Inr [(''ndvi'', s_ndvi), (''ndwi'', s_ndwi), (''mndwi'', s_mndwi),
                (''ndsi'', s_ndsi), (''red_edge_ndvi'', s_red_edge)])))))))))))"

text \<open>The \<open>except\<close> branch returns the empty dictionary.\<close>

definition calculate_spectral_indices ::
  "(pyfloat \<Rightarrow> pyfloat \<Rightarrow> pyfloat) \<Rightarrow> spectral_data \<Rightarrow> pyfloat option
     \<Rightarrow> py_error + (string \<times> index_stats) list" where
  "calculate_spectral_indices fmul spectral real_ndvi =
     (case calculate_spectral_indices_try fmul spectral real_ndvi of
        Inl e \<Rightarrow> Inr []
      | Inr indices \<Rightarrow> Inr indices)"

subsection \<open>Pest risk\<close>

definition assess_environmental_pest_risk ::
  "pyfloat \<Rightarrow> pyfloat \<Rightarrow> string \<Rightarrow> pyfloat \<Rightarrow> pyfloat" where
  "assess_environmental_pest_risk temp humidity crop_type latitude =
     (let risk = Fin 0;
          risk = (if fl_le (Fin 22) temp \<and> fl_le temp (Fin 32) then fl_add risk (Fin 0.3)
                  else if fl_gt temp (Fin 35) \<or> fl_lt temp (Fin 15) then fl_add risk (Fin 0.1)
                  else fl_add risk (Fin 0.2));
          risk = (if fl_gt humidity (Fin 75) then fl_add risk (Fin 0.4)
                  else if fl_lt humidity (Fin 40) then fl_add risk (Fin 0.3)
                  else fl_add risk (Fin 0.2));
          risk = (if fl_lt (fl_abs latitude) (Fin 35) then fl_add risk (Fin 0.2) else risk)
      in py_min2 risk (Fin 1))"

definition assess_spectral_stress :: "pyfloat \<Rightarrow> pyfloat \<Rightarrow> pyfloat \<Rightarrow> pyfloat" where
  "assess_spectral_stress ndvi_mean ndvi_std ndwi_mean =
     (let stress_score = Fin 0;
          stress_score = (if fl_lt ndvi_mean (Fin 0.4) then fl_add stress_score (Fin 0.4)
                          else if fl_lt ndvi_mean (Fin 0.6) then fl_add stress_score (Fin 0.2)
                          else stress_score);
          stress_score = (if fl_gt ndvi_std (Fin 0.15) then fl_add stress_score (Fin 0.3)
                          else if fl_gt ndvi_std (Fin 0.10) then fl_add stress_score (Fin 0.2)
                          else stress_score);
          stress_score = (if fl_lt ndwi_mean (Fin 0.2) then fl_add stress_score (Fin 0.3)
                          else stress_score)
      in py_min2 stress_score (Fin 1))"

text \<open>The month is \<open>datetime.now().month\<close>, taken as a parameter.\<close>

definition assess_seasonal_pest_risk :: "nat \<Rightarrow> pyfloat \<Rightarrow> string \<Rightarrow> pyfloat" where
  "assess_seasonal_pest_risk month latitude crop_type =
     (if fl_gt latitude (Fin 0)
      then (if crop_type \<in> set [''rice'', ''cotton''] \<and> month \<in> set [6, 7, 8] then Fin 0.8
            else if crop_type = ''wheat'' \<and> month \<in> set [3, 4, 5] then Fin 0.6
            else Fin 0.4)
      else (if month \<in> set [12, 1, 2] then Fin 0.7 else Fin 0.4))"

text \<open>The factor dictionary is an association list in insertion order.\<close>

definition calculate_specific_pest_risks ::
  "(string \<times> pyfloat) list \<Rightarrow> string \<Rightarrow> pyfloat \<Rightarrow> pyfloat \<Rightarrow> (string \<times> pyfloat) list" where
  "calculate_specific_pest_risks risk_factors crop_type temp humidity =
     (let base_risk = np_mean (map snd risk_factors)
      in if crop_type = ''rice'' then
           [(''brown_planthopper'',
               if fl_gt humidity (Fin 80) then fl_mul base_risk (Fin 0.9) else fl_mul base_risk (Fin 0.6)),
            (''rice_blast'',
               if fl_gt humidity (Fin 75) \<and> fl_gt temp (Fin 25)
               then fl_mul base_risk (Fin 0.8) else fl_mul base_risk (Fin 0.4)),
            (''stem_borer'', fl_mul base_risk (Fin 0.7)),
            (''leaf_folder'',
               if fl_gt temp (Fin 28) then fl_mul base_risk (Fin 0.6) else fl_mul base_risk (Fin 0.4))]
         else if crop_type = ''cotton'' then
           [(''bollworm'',
               if fl_lt (Fin 25) temp \<and> fl_lt temp (Fin 35)
               then fl_mul base_risk (Fin 0.8) else fl_mul base_risk (Fin 0.5)),
            (''aphids'',
               if fl_lt humidity (Fin 60) then fl_mul base_risk (Fin 0.7) else fl_mul base_risk (Fin 0.4)),
            (''whitefly'',
               if fl_gt temp (Fin 30) then fl_mul base_risk (Fin 0.9) else fl_mul base_risk (Fin 0.6)),
            (''thrips'', fl_mul base_risk (Fin 0.6))]
         else if crop_type = ''wheat'' then
           [(''rust'',
               if fl_gt humidity (Fin 70) then fl_mul base_risk (Fin 0.8) else fl_mul base_risk (Fin 0.3)),
            (''aphids'', fl_mul base_risk (Fin 0.7)),
            (''termites'',
               if fl_lt humidity (Fin 50) then fl_mul base_risk (Fin 0.5) else fl_mul base_risk (Fin 0.3)),
            (''army_worm'',
               if fl_gt temp (Fin 25) then fl_mul base_risk (Fin 0.6) else fl_mul base_risk (Fin 0.4))]
         else
           [(''aphids'', fl_mul base_risk (Fin 0.6)),
            (''spider_mites'',
               if fl_lt humidity (Fin 50) then fl_mul base_risk (Fin 0.5) else fl_mul base_risk (Fin 0.3)),
            (''thrips'', fl_mul base_risk (Fin 0.5)),
            (''fungal_diseases'',
               if fl_gt humidity (Fin 75) then fl_mul base_risk (Fin 0.7) else fl_mul base_risk (Fin 0.4))])"

definition dict_get :: "(string \<times> pyfloat) list \<Rightarrow> string \<Rightarrow> pyfloat \<Rightarrow> pyfloat" where
  "dict_get d k dflt = (case map_of d k of Some v \<Rightarrow> v | None \<Rightarrow> dflt)"

definition pest_weights :: "(string \<times> pyfloat) list" where
  "pest_weights = [(''environmental'', Fin 0.4), (''spectral_stress'', Fin 0.35), (''seasonal'', Fin 0.25)]"

definition calculate_overall_pest_risk :: "(string \<times> pyfloat) list \<Rightarrow> pyfloat" where
  "calculate_overall_pest_risk risk_factors =
     (let weighted_risk =
            foldl fl_add (Fin 0)
              (map (\<lambda>(factor, weight). fl_mul (dict_get risk_factors factor (Fin 0)) weight) pest_weights)
      in py_min2 weighted_risk (Fin 1))"

definition categorize_risk_level :: "pyfloat \<Rightarrow> string" where
  "categorize_risk_level risk_score =
     (if fl_ge risk_score (Fin 0.7) then ''high''
      else if fl_ge risk_score (Fin 0.4) then ''medium''
      else ''low'')"

section \<open>Batch entry point: \<open>calculate_all_indices\<close> in \<open>utils/ndvi.py\<close>\<close>

text \<open>
  The band dictionary has the same four keys as above. An index is computed only when both
  of its bands are non-empty; the result dictionary is an association list in insertion
  order.
\<close>

definition calculate_all_indices_try :: "spectral_data \<Rightarrow> py_error + (string \<times> pyfloat list) list" where
  "calculate_all_indices_try data =
     (let red_band = sd_red data; nir_band = sd_nir data;
          green_band = sd_green data; swir_band = sd_swir data
      in bind_err (if length red_band > 0 \<and> length nir_band > 0
                   then bind_err (calculate_ndvi red_band nir_band) (\<lambda>v. Inr [(''ndvi'', v)])
                   else Inr []) (\<lambda>i_ndvi.
         bind_err (if length nir_band > 0 \<and> length swir_band > 0
                   then bind_err (calculate_ndwi nir_band swir_band) (\<lambda>v. Inr [(''ndwi'', v)])
                   else Inr []) (\<lambda>i_ndwi.
         bind_err (if length green_band > 0 \<and> length swir_band > 0
                   then bind_err (calculate_mndwi green_band swir_band) (\<lambda>v. Inr [(''mndwi'', v)])
                   else Inr []) (\<lambda>i_mndwi.
         bind_err (if length green_band > 0 \<and> length swir_band > 0
                   then bind_err (calculate_ndsi green_band swir_band) (\<lambda>v. Inr [(''ndsi'', v)])
                   else Inr []) (\<lambda>i_ndsi.
         Inr (i_ndvi @ i_ndwi @ i_mndwi @ i_ndsi))))))"

definition calculate_all_indices :: "spectral_data \<Rightarrow> py_error + (string \<times> pyfloat list) list" where
  "calculate_all_indices data =
     (case calculate_all_indices_try data of
        Inl e \<Rightarrow> Inr []
      | Inr indices \<Rightarrow> Inr indices)"

section \<open>Reading index arrays\<close>

text \<open>
  \<open>indices[name]['values']\<close> of the analyzer's result, the empty array when the key is
  absent.
\<close>

definition spectral_index_values ::
  "(pyfloat \<Rightarrow> pyfloat \<Rightarrow> pyfloat) \<Rightarrow> spectral_data \<Rightarrow> pyfloat option \<Rightarrow> string
     \<Rightarrow> pyfloat list" where
  "spectral_index_values fmul spectral real_ndvi name =
     (case calculate_spectral_indices fmul spectral real_ndvi of
        Inl e \<Rightarrow> []
      | Inr indices \<Rightarrow> (case map_of indices name of Some s \<Rightarrow> st_values s | None \<Rightarrow> []))"

text \<open>
  What the two families of index code compute at one pixel: the functions of
  \<open>utils/ndvi.py\<close> replace a zero denominator by \<open>1e-10\<close> and clip to \<open>[-1, 1]\<close>; the
  analyzer selects 0 where the denominator is zero and does not clip.
\<close>

definition eps_clip_ratio :: "pyfloat \<Rightarrow> pyfloat \<Rightarrow> pyfloat" where
  "eps_clip_ratio a b =
     fl_minimum
       (fl_maximum
          (fl_div (fl_sub a b)
                  (if fl_eq (fl_add a b) (Fin 0) then Fin (1 / 10 ^ 10) else fl_add a b))
          (Fin (- 1)))
       (Fin 1)"

definition zero_check_ratio :: "pyfloat \<Rightarrow> pyfloat \<Rightarrow> pyfloat" where
  "zero_check_ratio a b =
     (if fl_ne (fl_add a b) (Fin 0) then fl_div (fl_sub a b) (fl_add a b) else Fin 0)"

text \<open>A finite value in \<open>[-1, 1]\<close>.\<close>

fun in_unit_range :: "pyfloat \<Rightarrow> bool" where
  "in_unit_range (Fin y) = (- 1 \<le> y \<and> y \<le> 1)"
| "in_unit_range PInf = False"
| "in_unit_range NInf = False"
| "in_unit_range NaN = False"

section \<open>Interpretation layer: \<open>utils/ndvi.py\<close>\<close>

text \<open>
  The interpretation functions take whatever the caller passes. A value that is not a
  number makes the first comparison raise TypeError.
\<close>

datatype pyval = PyFloat pyfloat | PyNone | PyStr string

fun py_lt :: "pyval \<Rightarrow> pyfloat \<Rightarrow> py_error + bool" where
  "py_lt (PyFloat x) c = Inr (fl_lt x c)"
| "py_lt PyNone c = Inl (TypeError ''< not supported between instances of NoneType and float'')"
| "py_lt (PyStr s) c = Inl (TypeError ''< not supported between instances of str and float'')"

fun py_gt :: "pyval \<Rightarrow> pyfloat \<Rightarrow> py_error + bool" where
  "py_gt (PyFloat x) c = Inr (fl_gt x c)"
| "py_gt PyNone c = Inl (TypeError ''> not supported between instances of NoneType and float'')"
| "py_gt (PyStr s) c = Inl (TypeError ''> not supported between instances of str and float'')"

fun py_abs :: "pyval \<Rightarrow> py_error + pyfloat" where
  "py_abs (PyFloat x) = Inr (fl_abs x)"
| "py_abs PyNone = Inl (TypeError ''bad operand type for abs(): NoneType'')"
| "py_abs (PyStr s) = Inl (TypeError ''bad operand type for abs(): str'')"

definition round_half_even :: "real \<Rightarrow> int" where
  "round_half_even x =
     (let f = \<lfloor>x\<rfloor>; d = x - of_int f
      in if d < 1 / 2 then f else if 1 / 2 < d then f + 1 else if even f then f else f + 1)"

text \<open>\<open>round(x, ndigits)\<close> returns a non-finite float unchanged.\<close>

fun fl_round :: "pyfloat \<Rightarrow> nat \<Rightarrow> pyfloat" where
  "fl_round (Fin a) n = Fin (of_int (round_half_even (a * 10 ^ n)) / 10 ^ n)"
| "fl_round PInf n = PInf"
| "fl_round NInf n = NInf"
| "fl_round NaN n = NaN"

fun py_round :: "pyval \<Rightarrow> nat \<Rightarrow> py_error + pyval" where
  "py_round (PyFloat x) n = Inr (PyFloat (fl_round x n))"
| "py_round PyNone n = Inl (TypeError ''type NoneType does not define __round__ method'')"
| "py_round (PyStr s) n = Inl (TypeError ''type str does not define __round__ method'')"

text \<open>
  The result dictionary. The score is stored under \<open>health_score\<close>, \<open>water_score\<close> or
  \<open>snow_score\<close>, the value under \<open>ndvi_value\<close>, \<open>ndwi_value\<close> or \<open>ndsi_value\<close>.
\<close>

record interp_result =
  i_value :: pyval
  i_status :: string
  i_description :: string
  i_score :: int
  i_color :: string
  i_confidence :: pyfloat

definition interpret_ndvi_try :: "pyval \<Rightarrow> py_error + interp_result" where
  "interpret_ndvi_try ndvi_value =
     bind_err
       (bind_err (py_lt ndvi_value (Fin 0)) (\<lambda>c1.
          if c1 then Inr (''Poor'', ''No vegetation or stressed vegetation'', 0, ''#FF4444'')
          else bind_err (py_lt ndvi_value (Fin 0.2)) (\<lambda>c2.
          if c2 then Inr (''Poor'', ''Sparse vegetation or bare soil'', 20, ''#FF6644'')
          else bind_err (py_lt ndvi_value (Fin 0.4)) (\<lambda>c3.
          if c3 then Inr (''Moderate'', ''Moderate vegetation density'', 50, ''#FFAA44'')
          else bind_err (py_lt ndvi_value (Fin 0.6)) (\<lambda>c4.
          if c4 then Inr (''Good'', ''Healthy vegetation'', 75, ''#88CC44'')
          else Inr (''Excellent'', ''Dense, very healthy vegetation'', 90, ''#44AA44''))))))
       (\<lambda>(status, description, health_score, color).
     bind_err (py_round ndvi_value 3) (\<lambda>rounded.
     Inr \<lparr>i_value = rounded, i_status = status, i_description = description,
          i_score = health_score, i_color = color,
          i_confidence = py_min2 (Fin 95) (py_max2 (Fin 60) (Fin (of_int health_score)))\<rparr>))"

definition interpret_ndvi :: "pyval \<Rightarrow> py_error + interp_result" where
  "interpret_ndvi ndvi_value =
     (case interpret_ndvi_try ndvi_value of
        Inl e \<Rightarrow>
          Inr \<lparr>i_value = ndvi_value, i_status = ''Unknown'',
               i_description = ''Error interpreting NDVI value'', i_score = 50,
               i_color = ''#888888'', i_confidence = Fin 50\<rparr>
      | Inr r \<Rightarrow> Inr r)"

definition interpret_ndwi_try :: "pyval \<Rightarrow> py_error + interp_result" where
  "interpret_ndwi_try ndwi_value =
     bind_err
       (bind_err (py_gt ndwi_value (Fin 0.3)) (\<lambda>c1.
          if c1 then Inr (''High Water Content'',
                          ''Strong water presence or very moist vegetation'', 90, ''#0077BE'')
          else bind_err (py_gt ndwi_value (Fin 0.1)) (\<lambda>c2.
          if c2 then Inr (''Moderate Water Content'', ''Water bodies or moist vegetation'', 70,
                          ''#4A9FDB'')
          else bind_err (py_gt ndwi_value (Fin (- 0.1))) (\<lambda>c3.
          if c3 then Inr (''Low Water Content'', ''Slightly moist soil or sparse vegetation'', 40,
                          ''#87CEEB'')
          else Inr (''No Water'', ''Dry vegetation, bare soil, or built-up areas'', 10,
                    ''#8B4513'')))))
       (\<lambda>(status, description, water_score, color).
     bind_err (py_round ndwi_value 3) (\<lambda>rounded.
     bind_err (py_abs ndwi_value) (\<lambda>magnitude.
     Inr \<lparr>i_value = rounded, i_status = status, i_description = description,
          i_score = water_score, i_color = color,
          i_confidence = py_min2 (Fin 95) (py_max2 (Fin 60) (fl_mul magnitude (Fin 100)))\<rparr>)))"

definition interpret_ndwi :: "pyval \<Rightarrow> py_error + interp_result" where
  "interpret_ndwi ndwi_value =
     (case interpret_ndwi_try ndwi_value of
        Inl e \<Rightarrow>
          Inr \<lparr>i_value = ndwi_value, i_status = ''Unknown'',
               i_description = ''Error interpreting NDWI value'', i_score = 50,
               i_color = ''#888888'', i_confidence = Fin 50\<rparr>
      | Inr r \<Rightarrow> Inr r)"

definition interpret_ndsi_try :: "pyval \<Rightarrow> py_error + interp_result" where
  "interpret_ndsi_try ndsi_value =
     bind_err
       (bind_err (py_gt ndsi_value (Fin 0.4)) (\<lambda>c1.
          if c1 then Inr (''Snow/Ice Present'', ''Strong snow or ice cover'', 90, ''#FFFFFF'')
          else bind_err (py_gt ndsi_value (Fin 0.1)) (\<lambda>c2.
          if c2 then Inr (''Possible Snow/Ice'', ''Light snow cover or mixed snow-vegetation'', 60,
                          ''#F0F8FF'')
          else bind_err (py_gt ndsi_value (Fin (- 0.1))) (\<lambda>c3.
          if c3 then Inr (''No Snow'', ''Clear ground or sparse vegetation'', 20, ''#90EE90'')
          else Inr (''Vegetation/Water'', ''Vegetation or water bodies (no snow)'', 5,
                    ''#228B22'')))))
       (\<lambda>(status, description, snow_score, color).
     bind_err (py_round ndsi_value 3) (\<lambda>rounded.
     bind_err (py_abs ndsi_value) (\<lambda>magnitude.
     Inr \<lparr>i_value = rounded, i_status = status, i_description = description,
          i_score = snow_score, i_color = color,
          i_confidence = py_min2 (Fin 95) (py_max2 (Fin 60) (fl_mul magnitude (Fin 100)))\<rparr>)))"

definition interpret_ndsi :: "pyval \<Rightarrow> py_error + interp_result" where
  "interpret_ndsi ndsi_value =
     (case interpret_ndsi_try ndsi_value of
        Inl e \<Rightarrow>
          Inr \<lparr>i_value = ndsi_value, i_status = ''Unknown'',
               i_description = ''Error interpreting NDSI value'', i_score = 50,
               i_color = ''#888888'', i_confidence = Fin 50\<rparr>
      | Inr r \<Rightarrow> Inr r)"

text \<open>
  The cascade of the specification for NDVI, read as inclusive lower bounds checked from
  the highest one down: (status, score).
\<close>

definition ndvi_cascade_spec :: "real \<Rightarrow> string \<times> int" where
  "ndvi_cascade_spec x =
     (if 0.6 \<le> x then (''Excellent'', 90)
      else if 0.4 \<le> x then (''Good'', 75)
      else if 0.2 \<le> x then (''Moderate'', 50)
      else if 0 \<le> x then (''Poor'', 20)
      else (''Poor'', 0))"

section \<open>Land-cover classifier: \<open>create_index_stack_analysis\<close>\<close>

text \<open>
  The index dictionary, read with \<open>indices.get(name, np.array([]))\<close>: an absent index is
  the empty array.
\<close>

record index_stack =
  is_ndvi :: "pyfloat list"
  is_ndwi :: "pyfloat list"
  is_mndwi :: "pyfloat list"
  is_ndsi :: "pyfloat list"

text \<open>\<open>min\<close> of a list of lengths raises ValueError on the empty list.\<close>

definition py_min_list :: "nat list \<Rightarrow> py_error + nat" where
  "py_min_list ns =
     (case ns of
        [] \<Rightarrow> Inl (ValueError ''min() arg is an empty sequence'')
      | m # ms \<Rightarrow> Inr (foldl min m ms))"

text \<open>\<open>arr[:min_length] if len(arr) > 0 else np.full(min_length, fill)\<close>\<close>

definition truncate_or_fill :: "nat \<Rightarrow> pyfloat \<Rightarrow> pyfloat list \<Rightarrow> pyfloat list" where
  "truncate_or_fill min_length fill arr =
     (if length arr > 0 then take min_length arr else np_full min_length fill)"

text \<open>
  The classification loop: \<open>land_cover\<close> starts as \<open>min_length\<close> zeros (0 is Unknown) and
  position \<open>i\<close> is overwritten in iteration \<open>i\<close>.
\<close>

definition land_cover_loop ::
  "nat \<Rightarrow> pyfloat list \<Rightarrow> pyfloat list \<Rightarrow> pyfloat list \<Rightarrow> pyfloat list \<Rightarrow> nat list" where
  "land_cover_loop min_length ndvi ndwi mndwi ndsi =
     fold (\<lambda>i land_cover.
             land_cover[i :=
               (if fl_gt (ndsi ! i) (Fin 0.4) then 2
                else if fl_gt (mndwi ! i) (Fin 0.3) \<or> fl_gt (ndwi ! i) (Fin 0.3) then 1
                else if fl_gt (ndvi ! i) (Fin 0.6) then 3
                else if fl_gt (ndvi ! i) (Fin 0.2) then 4
                else if fl_lt (ndvi ! i) (Fin (- 0.1)) then 6
                else 5)])
          [0..<min_length] (replicate min_length 0)"

text \<open>\<open>np.bincount(land_cover, minlength=7)\<close>\<close>

definition np_bincount :: "nat list \<Rightarrow> nat \<Rightarrow> nat list" where
  "np_bincount labels minlength =
     map (\<lambda>k. count_list labels k) [0..<max minlength (if labels = [] then 0 else Suc (foldl max 0 labels))]"

definition land_cover_map :: "(nat \<times> string \<times> string) list" where
  "land_cover_map =
     [(0, ''Unknown'', ''#808080''),
      (1, ''Water'', ''#6A5ACD''),
      (2, ''Snow/Ice'', ''#FF00FF''),
      (3, ''Dense Vegetation'', ''#228B22''),
      (4, ''Sparse Vegetation'', ''#9ACD32''),
      (5, ''Bare Soil/Rock'', ''#4169E1''),
      (6, ''Urban/Built-up'', ''#696969'')]"

definition land_cover_name :: "nat \<Rightarrow> string" where
  "land_cover_name k = (case map_of land_cover_map k of Some (name, color) \<Rightarrow> name | None \<Rightarrow> [])"

record cover_entry =
  ce_percentage :: pyfloat
  ce_pixel_count :: nat
  ce_color :: string

text \<open>The statistics loop over the seven labels; only labels with a positive count get an
  entry, in label order.\<close>

definition land_cover_stats_of :: "nat list \<Rightarrow> nat \<Rightarrow> (string \<times> cover_entry) list" where
  "land_cover_stats_of land_cover_counts total_pixels =
     concat (map (\<lambda>i.
       if land_cover_counts ! i > 0
       then (case map_of land_cover_map i of
               Some (name, color) \<Rightarrow>
                 [(name,
                   \<lparr>ce_percentage =
                      fl_round (fl_mul (fl_div (Fin (real (land_cover_counts ! i)))
                                               (Fin (real total_pixels))) (Fin 100)) 1,
                    ce_pixel_count = land_cover_counts ! i,
                    ce_color = color\<rparr>)]
             | None \<Rightarrow> [])
       else []) [0..<7])"

text \<open>\<open>max(items, key=percentage)[0]\<close>: the first entry with the greatest percentage.\<close>

fun max_by_percentage ::
  "string \<times> cover_entry \<Rightarrow> (string \<times> cover_entry) list \<Rightarrow> string \<times> cover_entry" where
  "max_by_percentage best [] = best"
| "max_by_percentage best (x # xs) =
     (if fl_gt (ce_percentage (snd x)) (ce_percentage (snd best))
      then max_by_percentage x xs else max_by_percentage best xs)"

definition dominant_of :: "(string \<times> cover_entry) list \<Rightarrow> string" where
  "dominant_of stats =
     (case stats of [] \<Rightarrow> ''Unknown'' | x # xs \<Rightarrow> fst (max_by_percentage x xs))"

record rounded_stats =
  rs_mean :: pyfloat
  rs_std :: pyfloat
  rs_min :: pyfloat
  rs_max :: pyfloat
  rs_median :: pyfloat

definition index_stats_of :: "pyfloat list \<Rightarrow> py_error + rounded_stats" where
  "index_stats_of vals =
     bind_err (np_min vals) (\<lambda>lo.
     bind_err (np_max vals) (\<lambda>hi.
     Inr \<lparr>rs_mean = fl_round (np_mean vals) 3, rs_std = fl_round (np_std vals) 3,
          rs_min = fl_round lo 3, rs_max = fl_round hi 3,
          rs_median = fl_round (np_median vals) 3\<rparr>))"

text \<open>One round of the statistics loop: an entry only \<open>if len(values) > 0\<close>.\<close>

definition index_stats_entry ::
  "string \<Rightarrow> pyfloat list \<Rightarrow> py_error + (string \<times> rounded_stats) list" where
  "index_stats_entry name vals =
     (if length vals > 0 then bind_err (index_stats_of vals) (\<lambda>s. Inr [(name, s)])
      else Inr [])"

record stack_result =
  sr_land_cover_stats :: "(string \<times> cover_entry) list"
  sr_index_stats :: "(string \<times> rounded_stats) list"
  sr_total_pixels :: nat
  sr_dominant_land_cover :: string

datatype stack_output = StackError string | StackResult stack_result

definition create_index_stack_analysis_try :: "index_stack \<Rightarrow> py_error + stack_output" where
  "create_index_stack_analysis_try indices =
     (let ndvi = is_ndvi indices; ndwi = is_ndwi indices;
          mndwi = is_mndwi indices; ndsi = is_ndsi indices
      in bind_err (py_min_list (filter (\<lambda>n. n > 0) (map length [ndvi, ndwi, mndwi, ndsi])))
           (\<lambda>min_length.
         if min_length = 0 then Inr (StackError ''No valid index data provided'')
         else
           let ndvi = truncate_or_fill min_length (Fin 0.5) ndvi;
               ndwi = truncate_or_fill min_length (Fin 0) ndwi;
               mndwi = truncate_or_fill min_length (Fin 0) mndwi;
               ndsi = truncate_or_fill min_length (Fin 0) ndsi;
               land_cover = land_cover_loop min_length ndvi ndwi mndwi ndsi;
               land_cover_counts = np_bincount land_cover 7;
               total_pixels = length land_cover;
               land_cover_stats = land_cover_stats_of land_cover_counts total_pixels
           in bind_err (index_stats_entry ''NDVI'' ndvi) (\<lambda>s_ndvi.
              bind_err (index_stats_entry ''NDWI'' ndwi) (\<lambda>s_ndwi.
              bind_err (index_stats_entry ''MNDWI'' mndwi) (\<lambda>s_mndwi.
              bind_err (index_stats_entry ''NDSI'' ndsi) (\<lambda>s_ndsi.
              Inr (StackResult
                \<lparr>sr_land_cover_stats = land_cover_stats,
                 sr_index_stats = s_ndvi @ s_ndwi @ s_mndwi @ s_ndsi,
                 sr_total_pixels = total_pixels,
                 sr_dominant_land_cover = dominant_of land_cover_stats\<rparr>)))))))"

definition create_index_stack_analysis :: "index_stack \<Rightarrow> py_error + stack_output" where
  "create_index_stack_analysis indices =
     (case create_index_stack_analysis_try indices of
        Inl e \<Rightarrow> Inr (StackError (''Failed to create index stack analysis: '' @ err_msg e))
      | Inr r \<Rightarrow> Inr r)"

text \<open>
  The decision order of the specification, by label name: the first rule that matches
  wins.
\<close>

definition land_cover_rule_spec :: "pyfloat \<Rightarrow> pyfloat \<Rightarrow> pyfloat \<Rightarrow> pyfloat \<Rightarrow> string" where
  "land_cover_rule_spec ndvi ndwi mndwi ndsi =
     (if fl_gt ndsi (Fin 0.4) then ''Snow/Ice''
      else if fl_gt mndwi (Fin 0.3) \<or> fl_gt ndwi (Fin 0.3) then ''Water''
      else if fl_gt ndvi (Fin 0.6) then ''Dense Vegetation''
      else if fl_gt ndvi (Fin 0.2) then ''Sparse Vegetation''
      else if fl_lt ndvi (Fin (- 0.1)) then ''Urban/Built-up''
      else ''Bare Soil/Rock'')"

section \<open>Prediction ensemble: \<open>utils/real_model.py\<close>\<close>

text \<open>
  A feature array is one-dimensional or two-dimensional; a two-dimensional array carries
  its column count (\<open>shape[1]\<close>) beside its rows. The fitted regressors and the scaler
  are library objects, taken as functions that may raise.
\<close>

datatype ndarray = Arr1 "pyfloat list" | Arr2 nat "pyfloat list list"

record ensemble =
  rf_model :: "pyfloat list list \<Rightarrow> py_error + pyfloat list"
  gb_model :: "pyfloat list list \<Rightarrow> py_error + pyfloat list"
  weight_rf :: pyfloat
  weight_gb :: pyfloat

record real_agricultural_model =
  model :: "ensemble option"
  scaler :: "(pyfloat list list \<Rightarrow> py_error + pyfloat list list) option"
  feature_names :: "string list"

text \<open>The state after \<open>__init__\<close>: no model, no scaler.\<close>

definition init_model :: real_agricultural_model where
  "init_model =
     \<lparr>model = None, scaler = None,
      feature_names = [''ndvi'', ''temperature'', ''humidity'', ''soil_moisture'', ''soil_ph'',
                       ''precipitation'', ''solar_radiation'', ''day_of_year'', ''latitude'']\<rparr>"

record prediction =
  p_health_score :: pyfloat
  p_status :: string
  p_confidence :: nat
  p_ndvi_value :: pyfloat
  p_model_type :: string
  p_prediction_quality :: string

text \<open>The dictionary of the \<open>except\<close> branch.\<close>

record error_prediction =
  ep_error :: string
  ep_health_score :: pyfloat
  ep_status :: string
  ep_confidence :: nat

datatype predict_output =
  Single prediction | Many "prediction list" | Placeholder error_prediction

definition status_of_score :: "pyfloat \<Rightarrow> string \<times> nat" where
  "status_of_score score =
     (if fl_ge score (Fin 80) then (''Excellent'', 95)
      else if fl_ge score (Fin 70) then (''Good'', 90)
      else if fl_ge score (Fin 50) then (''Moderate'', 85)
      else if fl_ge score (Fin 30) then (''Poor'', 80)
      else (''Critical'', 75))"

text \<open>The result loop over \<open>enumerate(health_scores)\<close>; \<open>features[i, 0]\<close> raises
  IndexError beyond the last row.\<close>

definition result_for :: "nat \<Rightarrow> pyfloat list list \<Rightarrow> nat \<Rightarrow> pyfloat \<Rightarrow> py_error + prediction" where
  "result_for ncols features i score =
     (let (status, confidence) = status_of_score score
      in bind_err (if ncols > 0
                   then (if i < length features then Inr (features ! i ! 0)
                         else Inl (IndexError ''index out of bounds for axis 0''))
                   else Inr (Fin 0.5)) (\<lambda>ndvi_value.
         Inr \<lparr>p_health_score = fl_round score 2, p_status = status, p_confidence = confidence,
              p_ndvi_value = fl_round ndvi_value 3,
              p_model_type = ''Real Agricultural Model'',
              p_prediction_quality = (if confidence > 85 then ''High'' else ''Medium'')\<rparr>))"

fun results_loop ::
  "nat \<Rightarrow> pyfloat list list \<Rightarrow> nat \<Rightarrow> pyfloat list \<Rightarrow> py_error + prediction list" where
  "results_loop ncols features i [] = Inr []"
| "results_loop ncols features i (score # scores) =
     bind_err (result_for ncols features i score) (\<lambda>r.
     bind_err (results_loop ncols features (Suc i) scores) (\<lambda>rs. Inr (r # rs)))"

definition predict_try :: "real_agricultural_model \<Rightarrow> ndarray \<Rightarrow> py_error + predict_output" where
  "predict_try self features =
     (case model self of
        None \<Rightarrow> Inl (ValueError ''Model not trained. Call train_model() first.'')
      | Some ens \<Rightarrow>
          let (n_features, rows) =
                (case features of Arr1 xs \<Rightarrow> (length xs, [xs]) | Arr2 c rs \<Rightarrow> (c, rs));
              k = length (feature_names self);
              rows = (if n_features < k
                      then map (\<lambda>r. r @ replicate (k - n_features) (Fin 0.5)) rows
                      else if n_features > k then map (take k) rows
                      else rows);
              ncols = (if n_features < k then k else if n_features > k then k else n_features)
          in bind_err (case scaler self of Some sc \<Rightarrow> sc rows | None \<Rightarrow> Inr rows)
               (\<lambda>features_scaled.
             bind_err (rf_model ens features_scaled) (\<lambda>rf_pred.
             bind_err (gb_model ens features_scaled) (\<lambda>gb_pred.
             bind_err (np_add (map (fl_mul (weight_rf ens)) rf_pred)
                              (map (fl_mul (weight_gb ens)) gb_pred)) (\<lambda>health_scores.
             bind_err (results_loop ncols rows 0 health_scores) (\<lambda>results.
             if length results = 1 then Inr (Single (hd results))
             else Inr (Many results)))))))"

definition predict :: "real_agricultural_model \<Rightarrow> ndarray \<Rightarrow> py_error + predict_output" where
  "predict self features =
     (case predict_try self features of
        Inl e \<Rightarrow>
          Inr (Placeholder \<lparr>ep_error = err_msg e, ep_health_score = Fin 50,
                            ep_status = ''Unknown'', ep_confidence = 50\<rparr>)
      | Inr r \<Rightarrow> Inr r)"

section \<open>Specification-side readings\<close>

text \<open>
  The value the land-cover classifier sees at pixel \<open>i\<close> of one index: the element of the
  array, or the neutral constant when the index is absent.
\<close>

definition index_at :: "pyfloat \<Rightarrow> pyfloat list \<Rightarrow> nat \<Rightarrow> pyfloat" where
  "index_at fill arr i = (if arr = [] then fill else arr ! i)"

text \<open>The pixel count reported for a label name, 0 when the name has no entry.\<close>

definition reported_count :: "(string \<times> cover_entry) list \<Rightarrow> string \<Rightarrow> nat" where
  "reported_count stats name =
     (case map_of stats name of Some entry \<Rightarrow> ce_pixel_count entry | None \<Rightarrow> 0)"

text \<open>
  The crop/pest multiplier table of the specification: per crop type the pests in order,
  each with a multiplier that depends on humidity and temperature only.
\<close>

definition pest_multipliers :: "string \<Rightarrow> pyfloat \<Rightarrow> pyfloat \<Rightarrow> (string \<times> real) list" where
  "pest_multipliers crop_type temp humidity =
     (if crop_type = ''rice'' then
        [(''brown_planthopper'', if fl_gt humidity (Fin 80) then 0.9 else 0.6),
         (''rice_blast'', if fl_gt humidity (Fin 75) \<and> fl_gt temp (Fin 25) then 0.8 else 0.4),
         (''stem_borer'', 0.7),
         (''leaf_folder'', if fl_gt temp (Fin 28) then 0.6 else 0.4)]
      else if crop_type = ''cotton'' then
        [(''bollworm'', if fl_lt (Fin 25) temp \<and> fl_lt temp (Fin 35) then 0.8 else 0.5),
         (''aphids'', if fl_lt humidity (Fin 60) then 0.7 else 0.4),
         (''whitefly'', if fl_gt temp (Fin 30) then 0.9 else 0.6),
         (''thrips'', 0.6)]
      else if crop_type = ''wheat'' then
        [(''rust'', if fl_gt humidity (Fin 70) then 0.8 else 0.3),
         (''aphids'', 0.7),
         (''termites'', if fl_lt humidity (Fin 50) then 0.5 else 0.3),
         (''army_worm'', if fl_gt temp (Fin 25) then 0.6 else 0.4)]
      else
        [(''aphids'', 0.6),
         (''spider_mites'', if fl_lt humidity (Fin 50) then 0.5 else 0.3),
         (''thrips'', 0.5),
         (''fungal_diseases'', if fl_gt humidity (Fin 75) then 0.7 else 0.4)])"

section \<open>Verified properties\<close>

lemma bind_err_simps [simp]:
  "bind_err (Inl e) f = Inl e" "bind_err (Inr x) f = f x"
  by (simp_all add: bind_err_def)

subsection \<open>Interpretation cascade\<close>

text \<open>
  C5. For every finite NDVI scalar the status and score that \<open>interpret_ndvi\<close> returns are
  those of the cascade of inclusive lower bounds checked from the highest down
  (0.6 Excellent/90, 0.4 Good/75, 0.2 Moderate/50, 0 Poor/20, below 0 Poor/0); at the
  value 0.4 exactly the result is Good with score 75.
\<close>

theorem interpret_ndvi_cascade:
  "(\<exists>r. interpret_ndvi (PyFloat (Fin x)) = Inr r \<and> (i_status r, i_score r) = ndvi_cascade_spec x)
   \<and> (\<exists>r. interpret_ndvi (PyFloat (Fin 0.4)) = Inr r \<and> i_status r = ''Good'' \<and> i_score r = 75)"
  by (simp add: interpret_ndvi_def interpret_ndvi_try_def ndvi_cascade_spec_def)

theorem interpret_ndvi_cascade_witness:
  "\<exists>r. interpret_ndvi (PyFloat (Fin 0.59)) = Inr r \<and> i_status r = ''Good'' \<and> i_score r = 75"
  using interpret_ndvi_cascade [of "0.59"] by (simp add: ndvi_cascade_spec_def)

lemma conf_bounds:
  "fl_le (Fin 60) (py_min2 (Fin 95) (py_max2 (Fin 60) c)) \<and>
   fl_le (py_min2 (Fin 95) (py_max2 (Fin 60) c)) (Fin 95)"
  by (cases c) (auto simp: py_min2_def py_max2_def fl_le_def fl_gt_def)

text \<open>
  C6 (as the code has it). For every float, finite or not, each of \<open>interpret_ndvi\<close>,
  \<open>interpret_ndwi\<close> and \<open>interpret_ndsi\<close> interprets the value without failing and
  returns a confidence of at least 60 and at most 95. For every input on which the
  interpretation fails (the \<open>try\<close> block raises, which a float never causes), the function
  returns the placeholder with status Unknown, score 50 and confidence 50 and does not raise.
\<close>

theorem interpret_confidence_and_failure:
  "(\<exists>r. interpret_ndvi (PyFloat x) = Inr r \<and> interpret_ndvi_try (PyFloat x) = Inr r
        \<and> fl_le (Fin 60) (i_confidence r) \<and> fl_le (i_confidence r) (Fin 95))
   \<and> (\<exists>r. interpret_ndwi (PyFloat x) = Inr r \<and> interpret_ndwi_try (PyFloat x) = Inr r
        \<and> fl_le (Fin 60) (i_confidence r) \<and> fl_le (i_confidence r) (Fin 95))
   \<and> (\<exists>r. interpret_ndsi (PyFloat x) = Inr r \<and> interpret_ndsi_try (PyFloat x) = Inr r
        \<and> fl_le (Fin 60) (i_confidence r) \<and> fl_le (i_confidence r) (Fin 95))
   \<and> (\<forall>e. interpret_ndvi_try v = Inl e \<longrightarrow>
        (\<exists>r. interpret_ndvi v = Inr r \<and> i_status r = ''Unknown'' \<and> i_score r = 50
             \<and> i_confidence r = Fin 50))
   \<and> (\<forall>e. interpret_ndwi_try v = Inl e \<longrightarrow>
        (\<exists>r. interpret_ndwi v = Inr r \<and> i_status r = ''Unknown'' \<and> i_score r = 50
             \<and> i_confidence r = Fin 50))
   \<and> (\<forall>e. interpret_ndsi_try v = Inl e \<longrightarrow>
        (\<exists>r. interpret_ndsi v = Inr r \<and> i_status r = ''Unknown'' \<and> i_score r = 50
             \<and> i_confidence r = Fin 50))"
proof -
  have a: "\<exists>r. interpret_ndvi (PyFloat x) = Inr r \<and> interpret_ndvi_try (PyFloat x) = Inr r
        \<and> fl_le (Fin 60) (i_confidence r) \<and> fl_le (i_confidence r) (Fin 95)"
    by (simp add: interpret_ndvi_def interpret_ndvi_try_def conf_bounds)
  have b: "\<exists>r. interpret_ndwi (PyFloat x) = Inr r \<and> interpret_ndwi_try (PyFloat x) = Inr r
        \<and> fl_le (Fin 60) (i_confidence r) \<and> fl_le (i_confidence r) (Fin 95)"
    by (simp add: interpret_ndwi_def interpret_ndwi_try_def conf_bounds)
  have c: "\<exists>r. interpret_ndsi (PyFloat x) = Inr r \<and> interpret_ndsi_try (PyFloat x) = Inr r
        \<and> fl_le (Fin 60) (i_confidence r) \<and> fl_le (i_confidence r) (Fin 95)"
    by (simp add: interpret_ndsi_def interpret_ndsi_try_def conf_bounds)
  have d: "\<forall>e. interpret_ndvi_try v = Inl e \<longrightarrow>
        (\<exists>r. interpret_ndvi v = Inr r \<and> i_status r = ''Unknown'' \<and> i_score r = 50
             \<and> i_confidence r = Fin 50)"
    by (simp add: interpret_ndvi_def)
  have e: "\<forall>e. interpret_ndwi_try v = Inl e \<longrightarrow>
        (\<exists>r. interpret_ndwi v = Inr r \<and> i_status r = ''Unknown'' \<and> i_score r = 50
             \<and> i_confidence r = Fin 50)"
    by (simp add: interpret_ndwi_def)
  have f: "\<forall>e. interpret_ndsi_try v = Inl e \<longrightarrow>
        (\<exists>r. interpret_ndsi v = Inr r \<and> i_status r = ''Unknown'' \<and> i_score r = 50
             \<and> i_confidence r = Fin 50)"
    by (simp add: interpret_ndsi_def)
  from a b c d e f show ?thesis by blast
qed

theorem interpret_confidence_and_failure_witness:
  "interpret_ndvi_try PyNone = Inl (TypeError ''< not supported between instances of NoneType and float'')
   \<and> (\<exists>r. interpret_ndvi PyNone = Inr r \<and> i_status r = ''Unknown'' \<and> i_score r = 50
             \<and> i_confidence r = Fin 50)
   \<and> (\<exists>r. interpret_ndwi (PyFloat (Fin 0.72)) = Inr r \<and> i_confidence r = Fin 72)"
  using interpret_confidence_and_failure [of "Fin 0.72" PyNone]
  by (simp add: interpret_ndvi_try_def interpret_ndvi_def interpret_ndwi_def interpret_ndwi_try_def
      py_min2_def py_max2_def fl_gt_def)

text \<open>
  A non-finite input is not a failure: on NaN every comparison of the cascade is false, so
  \<open>interpret_ndvi\<close> takes the last branch and answers Excellent with score 90 and
  confidence 90, not the Unknown placeholder.
\<close>

theorem interpret_nan_counterexample:
  "interpret_ndvi (PyFloat NaN)
     = Inr \<lparr>i_value = PyFloat NaN, i_status = ''Excellent'',
            i_description = ''Dense, very healthy vegetation'', i_score = 90,
            i_color = ''#44AA44'', i_confidence = Fin 90\<rparr>"
  by (simp add: interpret_ndvi_def interpret_ndvi_try_def py_min2_def py_max2_def fl_gt_def)

subsection \<open>Pest risk\<close>

text \<open>
  C8 (as the code has it). For every crop type, humidity and temperature, each
  specific-pest risk is the unweighted mean of the values of the risk-factor dictionary
  (for the three factors, their sum divided by 3) scaled by the crop/pest-specific
  multiplier of the table \<open>pest_multipliers\<close>, which depends on crop, humidity and
  temperature only: the whole result is that table with every multiplier applied to the
  mean. For crop rice the brown-planthopper risk is 0.9 times the mean when humidity is
  above 80 and 0.6 times it otherwise. Every multiplier lies between 0.3 and 0.9.
\<close>

theorem specific_pest_risk_scales_mean:
  "calculate_specific_pest_risks rf crop temp humidity
     = map (\<lambda>(pest, m). (pest, fl_mul (np_mean (map snd rf)) (Fin m)))
           (pest_multipliers crop temp humidity)
   \<and> (\<forall>(pest, m) \<in> set (pest_multipliers crop temp humidity). 0.3 \<le> m \<and> m \<le> 0.9)
   \<and> map_of (calculate_specific_pest_risks rf ''rice'' temp humidity) ''brown_planthopper''
       = Some (fl_mul (np_mean (map snd rf)) (Fin (if fl_gt humidity (Fin 80) then 0.9 else 0.6)))
   \<and> np_mean (map snd [(''environmental'', Fin e), (''spectral_stress'', Fin s), (''seasonal'', Fin q)])
       = Fin ((e + s + q) / 3)"
proof -
  have t: "calculate_specific_pest_risks rf crop temp humidity
     = map (\<lambda>(pest, m). (pest, fl_mul (np_mean (map snd rf)) (Fin m)))
           (pest_multipliers crop temp humidity)"
    by (simp add: calculate_specific_pest_risks_def pest_multipliers_def Let_def)
  have r: "\<forall>(pest, m) \<in> set (pest_multipliers crop temp humidity). 0.3 \<le> m \<and> m \<le> 0.9"
    by (simp add: pest_multipliers_def)
  have b: "map_of (calculate_specific_pest_risks rf ''rice'' temp humidity) ''brown_planthopper''
       = Some (fl_mul (np_mean (map snd rf)) (Fin (if fl_gt humidity (Fin 80) then 0.9 else 0.6)))"
    by (simp add: calculate_specific_pest_risks_def Let_def)
  have c: "np_mean (map snd [(''environmental'', Fin e), (''spectral_stress'', Fin s), (''seasonal'', Fin q)])
       = Fin ((e + s + q) / 3)"
    by (simp add: np_mean_def)
  from t r b c show ?thesis by (intro conjI)
qed

theorem specific_pest_risk_scales_mean_witness:
  "calculate_specific_pest_risks
     [(''environmental'', Fin 0.9), (''spectral_stress'', Fin 0), (''seasonal'', Fin 0.4)]
     ''rice'' (Fin 28) (Fin 85)
   = [(''brown_planthopper'', Fin 0.39), (''rice_blast'', Fin (26 / 75)),
      (''stem_borer'', Fin (91 / 300)), (''leaf_folder'', Fin (13 / 75))]"
  using specific_pest_risk_scales_mean
    [of "[(''environmental'', Fin 0.9), (''spectral_stress'', Fin 0), (''seasonal'', Fin 0.4)]"
        "''rice''" "Fin 28" "Fin 85" "0.9" "0" "0.4"]
  by (simp add: pest_multipliers_def fl_gt_def)

text \<open>
  With temperature 28, humidity 85, latitude 10, mean NDVI 0.7, NDVI deviation 0.05, mean
  NDWI 0.3 and month 1, the factors are 0.9, 0 and 0.4. The brown-planthopper risk for rice
  is 0.9 times their mean, 0.39, while 0.9 times the weighted overall risk is 0.414.
\<close>

theorem specific_pest_risk_counterexample:
  "map_of (calculate_specific_pest_risks
            [(''environmental'', assess_environmental_pest_risk (Fin 28) (Fin 85) ''rice'' (Fin 10)),
             (''spectral_stress'', assess_spectral_stress (Fin 0.7) (Fin 0.05) (Fin 0.3)),
             (''seasonal'', assess_seasonal_pest_risk 1 (Fin 10) ''rice'')]
            ''rice'' (Fin 28) (Fin 85)) ''brown_planthopper'' = Some (Fin 0.39)
   \<and> fl_mul (calculate_overall_pest_risk
            [(''environmental'', assess_environmental_pest_risk (Fin 28) (Fin 85) ''rice'' (Fin 10)),
             (''spectral_stress'', assess_spectral_stress (Fin 0.7) (Fin 0.05) (Fin 0.3)),
             (''seasonal'', assess_seasonal_pest_risk 1 (Fin 10) ''rice'')]) (Fin 0.9) = Fin 0.414"
  by (simp add: calculate_specific_pest_risks_def calculate_overall_pest_risk_def
      assess_environmental_pest_risk_def assess_spectral_stress_def assess_seasonal_pest_risk_def
      np_mean_def dict_get_def pest_weights_def py_min2_def fl_le_def fl_gt_def)

subsection \<open>Prediction before training\<close>

text \<open>
  C9 (as the code has it). For every feature array, \<open>predict\<close> on a model that has not
  been trained does not raise: the ValueError ``Model not trained'' is caught inside
  \<open>predict\<close>, which returns a placeholder dictionary holding the error text together with
  health score 50, status Unknown and confidence 50.
\<close>

theorem predict_untrained_placeholder:
  "model self = None \<Longrightarrow>
   predict self features
     = Inr (Placeholder \<lparr>ep_error = ''Model not trained. Call train_model() first.'',
                         ep_health_score = Fin 50, ep_status = ''Unknown'', ep_confidence = 50\<rparr>)"
  by (simp add: predict_def predict_try_def)

theorem predict_untrained_placeholder_witness:
  "model init_model = None \<and>
   predict init_model (Arr2 2 [[Fin 0.6, Fin 25]])
     = Inr (Placeholder \<lparr>ep_error = ''Model not trained. Call train_model() first.'',
                         ep_health_score = Fin 50, ep_status = ''Unknown'', ep_confidence = 50\<rparr>)"
  using predict_untrained_placeholder [of init_model "Arr2 2 [[Fin 0.6, Fin 25]]"]
  by (simp add: init_model_def)

text \<open>
  On the freshly constructed model and the canonical feature vector, \<open>predict\<close> returns a
  value that carries a health score of 50; it does not fail.
\<close>

theorem predict_untrained_counterexample:
  "predict init_model (Arr1 [Fin 0.75, Fin 25, Fin 60, Fin 45, Fin 6.8, Fin 20, Fin 22, Fin 150, Fin 40])
     = Inr (Placeholder \<lparr>ep_error = ''Model not trained. Call train_model() first.'',
                         ep_health_score = Fin 50, ep_status = ''Unknown'', ep_confidence = 50\<rparr>)"
  by (simp add: predict_def predict_try_def init_model_def)

subsection \<open>Land-cover classification\<close>

lemma fold_update_length:
  "length (fold (\<lambda>i acc. acc[i := f i]) is xs) = length xs"
  by (induction "is" arbitrary: xs) auto

lemma fold_update_nth:
  "i < length xs \<Longrightarrow>
   fold (\<lambda>i acc. acc[i := f i]) [0..<n] xs ! i = (if i < n then f i else xs ! i)"
proof (induction n)
  case 0
  then show ?case by simp
next
  case (Suc n)
  then show ?case
    by (auto simp: fold_update_length nth_list_update less_Suc_eq)
qed

lemma land_cover_loop_length:
  "length (land_cover_loop n ndvi ndwi mndwi ndsi) = n"
  by (simp add: land_cover_loop_def fold_update_length)

lemma land_cover_loop_nth:
  "i < n \<Longrightarrow>
   land_cover_loop n ndvi ndwi mndwi ndsi ! i =
     (if fl_gt (ndsi ! i) (Fin 0.4) then 2
      else if fl_gt (mndwi ! i) (Fin 0.3) \<or> fl_gt (ndwi ! i) (Fin 0.3) then 1
      else if fl_gt (ndvi ! i) (Fin 0.6) then 3
      else if fl_gt (ndvi ! i) (Fin 0.2) then 4
      else if fl_lt (ndvi ! i) (Fin (- 0.1)) then 6
      else 5)"
  unfolding land_cover_loop_def
  by (subst fold_update_nth) simp_all

lemma land_cover_name_simps:
  "land_cover_name (Suc 0) = ''Water''" "land_cover_name 2 = ''Snow/Ice''"
  "land_cover_name 3 = ''Dense Vegetation''" "land_cover_name 4 = ''Sparse Vegetation''"
  "land_cover_name 5 = ''Bare Soil/Rock''" "land_cover_name 6 = ''Urban/Built-up''"
  by (simp_all add: land_cover_name_def land_cover_map_def)

lemma land_cover_loop_name:
  "i < n \<Longrightarrow>
   land_cover_name (land_cover_loop n ndvi ndwi mndwi ndsi ! i)
     = land_cover_rule_spec (ndvi ! i) (ndwi ! i) (mndwi ! i) (ndsi ! i)"
  by (simp add: land_cover_loop_nth land_cover_rule_spec_def land_cover_name_simps)

lemma foldl_min_le: "foldl min (m::nat) ms \<le> m \<and> (\<forall>k \<in> set ms. foldl min m ms \<le> k)"
proof (induction ms arbitrary: m)
  case Nil
  then show ?case by simp
next
  case (Cons a ms)
  from Cons.IH [of "min m a"] show ?case by auto
qed

lemma py_min_list_le:
  "py_min_list ns = Inr n \<Longrightarrow> k \<in> set ns \<Longrightarrow> n \<le> k"
  using foldl_min_le by (cases ns) (auto simp: py_min_list_def)

lemma truncate_nth:
  assumes "py_min_list (filter (\<lambda>n. 0 < n) (map length [a, b, c, d])) = Inr n"
    and "i < n" and "arr \<in> set [a, b, c, d]" and "arr \<noteq> []"
  shows "truncate_or_fill n fill arr ! i = arr ! i"
proof -
  have "length arr \<in> set (filter (\<lambda>n. 0 < n) (map length [a, b, c, d]))"
    using assms(3,4) by auto
  then have "n \<le> length arr" using py_min_list_le [OF assms(1)] by blast
  then show ?thesis using assms(2,4) by (simp add: truncate_or_fill_def)
qed


lemma land_cover_loop_range:
  "k \<in> set (land_cover_loop n ndvi ndwi mndwi ndsi) \<Longrightarrow> 1 \<le> k \<and> k \<le> 6"
proof -
  assume "k \<in> set (land_cover_loop n ndvi ndwi mndwi ndsi)"
  then obtain i where "i < n" and "land_cover_loop n ndvi ndwi mndwi ndsi ! i = k"
    by (auto simp: in_set_conv_nth land_cover_loop_length)
  then show ?thesis by (auto simp: land_cover_loop_nth split: if_splits)
qed

lemma upt7: "[0..<7] = [0, 1, 2, 3, 4, 5, 6::nat]"
  by (simp add: upt_rec)

lemma bincount_nth:
  "i < 7 \<Longrightarrow> np_bincount labels 7 ! i = count_list labels i"
  by (simp add: np_bincount_def)

lemma stats_names_general:
  "fst ` set (land_cover_stats_of counts tot) \<subseteq> land_cover_name ` {k. k < 7 \<and> 0 < counts ! k}"
proof
  fix name assume "name \<in> fst ` set (land_cover_stats_of counts tot)"
  then obtain entry where "(name, entry) \<in> set (land_cover_stats_of counts tot)" by auto
  then have "\<exists>i color. i < 7 \<and> 0 < counts ! i \<and> map_of land_cover_map i = Some (name, color)"
    by (auto simp: land_cover_stats_of_def split: if_splits option.splits prod.splits; metis)
  then obtain i where i: "i < 7" "0 < counts ! i"
    and m: "\<exists>color. map_of land_cover_map i = Some (name, color)"
    by blast
  from m have "land_cover_name i = name" by (auto simp: land_cover_name_def)
  with i show "name \<in> land_cover_name ` {k. k < 7 \<and> 0 < counts ! k}" by blast
qed

lemma names_of_labels:
  "1 \<le> k \<Longrightarrow> k \<le> 6 \<Longrightarrow>
   land_cover_name k \<in> {''Water'', ''Snow/Ice'', ''Dense Vegetation'', ''Sparse Vegetation'',
               ''Bare Soil/Rock'', ''Urban/Built-up''}"
proof -
  assume "1 \<le> k" "k \<le> 6"
  then have "k = Suc 0 \<or> k = 2 \<or> k = 3 \<or> k = 4 \<or> k = 5 \<or> k = 6" by arith
  then show ?thesis using land_cover_name_simps by fastforce
qed

lemma stats_names:
  assumes "counts ! 0 = 0"
  shows "fst ` set (land_cover_stats_of counts tot)
           \<subseteq> {''Water'', ''Snow/Ice'', ''Dense Vegetation'', ''Sparse Vegetation'',
               ''Bare Soil/Rock'', ''Urban/Built-up''}"
proof
  fix name assume "name \<in> fst ` set (land_cover_stats_of counts tot)"
  with stats_names_general obtain k where k: "k < 7" "0 < counts ! k" "name = land_cover_name k"
    by blast
  with assms have "1 \<le> k" "k \<le> 6" by (cases k; simp)+
  with k(3) names_of_labels show "name \<in> {''Water'', ''Snow/Ice'', ''Dense Vegetation'',
      ''Sparse Vegetation'', ''Bare Soil/Rock'', ''Urban/Built-up''}" by blast
qed

lemma max_by_percentage_mem: "max_by_percentage b xs \<in> set (b # xs)"
  by (induction xs arbitrary: b) auto

lemma dominant_mem: "stats \<noteq> [] \<Longrightarrow> dominant_of stats \<in> fst ` set stats"
proof (cases stats)
  case Nil
  assume "stats \<noteq> []" with Nil show ?thesis by simp
next
  case (Cons x xs)
  have "max_by_percentage x xs \<in> set (x # xs)" by (rule max_by_percentage_mem)
  with Cons show ?thesis by (auto simp: dominant_of_def)
qed

lemma stats_nonempty:
  assumes "i < 7" "0 < counts ! i"
  shows "land_cover_stats_of counts tot \<noteq> []"
proof -
  from assms(1) have "i \<in> {0, 1, 2, 3, 4, 5, 6}" by auto
  with assms(2) show ?thesis
    by (auto simp: land_cover_stats_of_def upt7 land_cover_map_def)
qed

lemma truncate_fill_nth:
  "i < n \<Longrightarrow> truncate_or_fill n fill [] ! i = fill"
  by (simp add: truncate_or_fill_def np_full_def)

lemma np_min_nonempty: "xs \<noteq> [] \<Longrightarrow> \<exists>m. np_min xs = Inr m"
  by (cases xs) (simp_all add: np_min_def)

lemma np_max_nonempty: "xs \<noteq> [] \<Longrightarrow> \<exists>m. np_max xs = Inr m"
  by (cases xs) (simp_all add: np_max_def)

lemma stack_result_stats:
  "create_index_stack_analysis_try indices = Inr (StackResult r) \<Longrightarrow>
   \<exists>n a b c d. 0 < n \<and> sr_total_pixels r = n
     \<and> sr_land_cover_stats r = land_cover_stats_of (np_bincount (land_cover_loop n a b c d) 7) n
     \<and> sr_dominant_land_cover r = dominant_of (sr_land_cover_stats r)"
  by (auto simp: create_index_stack_analysis_try_def Let_def bind_err_def land_cover_loop_length
      split: sum.splits if_splits; blast)

lemma stats_of_loop:
  assumes "0 < n"
  shows "fst ` set (land_cover_stats_of (np_bincount (land_cover_loop n a b c d) 7) tot)
           \<subseteq> {''Water'', ''Snow/Ice'', ''Dense Vegetation'', ''Sparse Vegetation'',
               ''Bare Soil/Rock'', ''Urban/Built-up''}
         \<and> land_cover_stats_of (np_bincount (land_cover_loop n a b c d) 7) tot \<noteq> []"
proof -
  let ?lc = "land_cover_loop n a b c d"
  have "0 \<notin> set ?lc" using land_cover_loop_range [of 0 n a b c d] by auto
  then have z: "np_bincount ?lc 7 ! 0 = 0" by (simp add: bincount_nth)
  from assms have "?lc \<noteq> []" using land_cover_loop_length [of n a b c d] by auto
  then obtain k where k: "k \<in> set ?lc" by (cases ?lc) auto
  then have "1 \<le> k \<and> k \<le> 6" by (rule land_cover_loop_range)
  moreover from k have "0 < count_list ?lc k" using count_list_0_iff [of ?lc k] by simp
  ultimately have "k < 7" "0 < np_bincount ?lc 7 ! k" by (simp_all add: bincount_nth)
  then have "land_cover_stats_of (np_bincount ?lc 7) tot \<noteq> []" by (rule stats_nonempty)
  with stats_names [OF z] show ?thesis by simp
qed

lemma count_list_filter_index:
  "count_list xs k = length (filter (\<lambda>i. xs ! i = k) [0..<length xs])"
proof (induction xs rule: rev_induct)
  case Nil
  then show ?case by simp
next
  case (snoc x xs)
  have "filter (\<lambda>i. (xs @ [x]) ! i = k) [0..<length xs] = filter (\<lambda>i. xs ! i = k) [0..<length xs]"
    by (rule filter_cong) (auto simp: nth_append)
  with snoc show ?case by simp
qed

lemma map_of_cond_singletons:
  assumes "inj_on key (set ks)" "k \<in> set ks"
  shows "map_of (concat (map (\<lambda>i. if P i then [(key i, val i)] else []) ks)) (key k)
           = (if P k then Some (val k) else None)"
  using assms
proof (induction ks)
  case Nil
  then show ?case by simp
next
  case (Cons a ks)
  show ?case
  proof (cases "a = k")
    case True
    have "map_of (concat (map (\<lambda>i. if P i then [(key i, val i)] else []) ks)) (key k) = None"
      if "k \<notin> set ks"
    proof -
      have "key k \<notin> key ` set ks" using Cons.prems(1) that True by (auto simp: inj_on_def)
      then show ?thesis by (auto simp: map_of_eq_None_iff split: if_splits)
    qed
    moreover have "map_of (concat (map (\<lambda>i. if P i then [(key i, val i)] else []) ks)) (key k)
           = (if P k then Some (val k) else None)" if "k \<in> set ks"
      using Cons.IH that Cons.prems(1) by (simp add: inj_on_def)
    ultimately show ?thesis using True by (cases "k \<in> set ks") auto
  next
    case False
    with Cons.prems have kin: "k \<in> set ks" by simp
    from Cons.prems(1) have inj: "inj_on key (set ks)" by (simp add: inj_on_def)
    from False Cons.prems(1) kin have "key a \<noteq> key k" by (auto simp: inj_on_def)
    with Cons.IH [OF inj kin] show ?thesis by simp
  qed
qed

lemma map_of_cond_singletons_none:
  "name \<notin> key ` set ks \<Longrightarrow>
   map_of (concat (map (\<lambda>i. if P i then [(key i, val i)] else []) ks)) name = None"
  by (auto simp: map_of_eq_None_iff split: if_splits)


lemma land_cover_map_lookup:
  "i < 7 \<Longrightarrow> \<exists>color. map_of land_cover_map i = Some (land_cover_name i, color)"
proof -
  assume "i < 7"
  then have "i = 0 \<or> i = Suc 0 \<or> i = 2 \<or> i = 3 \<or> i = 4 \<or> i = 5 \<or> i = 6" by arith
  then show ?thesis by (auto simp: land_cover_name_def land_cover_map_def)
qed

lemma land_cover_name_distinct: "distinct (map land_cover_name [0..<7])"
  by (simp add: upt7 land_cover_name_def land_cover_map_def)

lemma land_cover_name_inj: "inj_on land_cover_name (set [0..<7])"
  using land_cover_name_distinct by (simp only: distinct_map)

lemma stats_as_singletons:
  "\<exists>val. land_cover_stats_of counts tot
     = concat (map (\<lambda>i. if 0 < counts ! i then [(land_cover_name i, val i)] else []) [0..<7])
     \<and> (\<forall>i. ce_pixel_count (val i) = counts ! i)"
proof -
  let ?val = "\<lambda>i. \<lparr>ce_percentage =
                      fl_round (fl_mul (fl_div (Fin (real (counts ! i))) (Fin (real tot))) (Fin 100)) 1,
                    ce_pixel_count = counts ! i,
                    ce_color = snd (the (map_of land_cover_map i))\<rparr>"
  have "(if counts ! i > 0
       then (case map_of land_cover_map i of
               Some (name, color) \<Rightarrow>
                 [(name,
                   \<lparr>ce_percentage =
                      fl_round (fl_mul (fl_div (Fin (real (counts ! i)))
                                               (Fin (real tot))) (Fin 100)) 1,
                    ce_pixel_count = counts ! i,
                    ce_color = color\<rparr>)]
             | None \<Rightarrow> [])
       else []) = (if 0 < counts ! i then [(land_cover_name i, ?val i)] else [])"
    if "i \<in> set [0..<7]" for i
  proof -
    from that have "i < 7" by simp
    from land_cover_map_lookup [OF this] obtain color
      where "map_of land_cover_map i = Some (land_cover_name i, color)" by blast
    then show ?thesis by simp
  qed
  then have "land_cover_stats_of counts tot
     = concat (map (\<lambda>i. if 0 < counts ! i then [(land_cover_name i, ?val i)] else []) [0..<7])"
    unfolding land_cover_stats_of_def by (intro arg_cong [where f = concat] map_cong refl)
  moreover have "\<forall>i. ce_pixel_count (?val i) = counts ! i" by simp
  ultimately show ?thesis by (intro exI [of _ ?val] conjI)
qed

lemma reported_count_label:
  assumes "k < 7"
  shows "reported_count (land_cover_stats_of counts tot) (land_cover_name k) = counts ! k"
proof -
  from stats_as_singletons [of counts tot] obtain val where
    st: "land_cover_stats_of counts tot
     = concat (map (\<lambda>i. if 0 < counts ! i then [(land_cover_name i, val i)] else []) [0..<7])"
    and pc: "\<forall>i. ce_pixel_count (val i) = counts ! i" by blast
  from assms have kin: "k \<in> set [0..<7]" by simp
  from map_of_cond_singletons [OF land_cover_name_inj kin, of "\<lambda>i. 0 < counts ! i" val]
  show ?thesis by (simp add: reported_count_def st pc)
qed

lemma reported_count_other:
  assumes "name \<notin> land_cover_name ` set [0..<7]"
  shows "reported_count (land_cover_stats_of counts tot) name = 0"
proof -
  from stats_as_singletons [of counts tot] obtain val where
    st: "land_cover_stats_of counts tot
     = concat (map (\<lambda>i. if 0 < counts ! i then [(land_cover_name i, val i)] else []) [0..<7])"
    by blast
  from map_of_cond_singletons_none [OF assms, of "\<lambda>i. 0 < counts ! i" val]
  show ?thesis by (simp add: reported_count_def st)
qed


lemma foldl_min_mem: "foldl min (m::nat) ms \<in> set (m # ms)"
proof (induction ms arbitrary: m)
  case Nil
  then show ?case by simp
next
  case (Cons a ms)
  from Cons.IH [of "min m a"] show ?case by (auto simp: min_def split: if_splits)
qed

lemma py_min_list_mem: "py_min_list ns = Inr n \<Longrightarrow> n \<in> set ns"
  using foldl_min_mem by (cases ns) (auto simp: py_min_list_def)

lemma truncate_length:
  assumes "py_min_list (filter (\<lambda>n. 0 < n) (map length [a, b, c, d])) = Inr n"
    and "arr \<in> set [a, b, c, d]"
  shows "length (truncate_or_fill n fill arr) = n"
proof (cases "arr = []")
  case True
  then show ?thesis by (simp add: truncate_or_fill_def np_full_def)
next
  case False
  with assms(2) have "length arr \<in> set (filter (\<lambda>n. 0 < n) (map length [a, b, c, d]))" by auto
  then have "n \<le> length arr" using py_min_list_le [OF assms(1)] by blast
  with False show ?thesis by (simp add: truncate_or_fill_def)
qed

lemma truncate_index_at:
  assumes "py_min_list (filter (\<lambda>n. 0 < n) (map length [a, b, c, d])) = Inr n"
    and "i < n" and "arr \<in> set [a, b, c, d]"
  shows "truncate_or_fill n fill arr ! i = index_at fill arr i"
  using truncate_nth [OF assms(1,2,3)] truncate_fill_nth [OF assms(2)]
  by (cases "arr = []") (simp_all add: index_at_def)

lemma index_stats_entry_ok:
  assumes "vals \<noteq> []"
  shows "\<exists>s. index_stats_entry name vals = Inr [(name, s)]"
proof -
  from np_min_nonempty [OF assms] obtain lo where "np_min vals = Inr lo" by blast
  moreover from np_max_nonempty [OF assms] obtain hi where "np_max vals = Inr hi" by blast
  ultimately show ?thesis using assms by (simp add: index_stats_entry_def index_stats_of_def)
qed

lemma stack_result_explicit:
  assumes m: "py_min_list (filter (\<lambda>n. 0 < n) (map length [ndvi, ndwi, mndwi, ndsi])) = Inr n"
  shows "0 < n \<and> (\<exists>r. create_index_stack_analysis
                \<lparr>is_ndvi = ndvi, is_ndwi = ndwi, is_mndwi = mndwi, is_ndsi = ndsi\<rparr> = Inr (StackResult r)
          \<and> sr_total_pixels r = n
          \<and> sr_land_cover_stats r
              = land_cover_stats_of
                  (np_bincount
                     (land_cover_loop n (truncate_or_fill n (Fin 0.5) ndvi)
                        (truncate_or_fill n (Fin 0) ndwi) (truncate_or_fill n (Fin 0) mndwi)
                        (truncate_or_fill n (Fin 0) ndsi)) 7) n
          \<and> sr_dominant_land_cover r = dominant_of (sr_land_cover_stats r))"
proof -
  from py_min_list_mem [OF m] have pos: "0 < n" by (auto split: if_splits)
  have len: "length (truncate_or_fill n (Fin 0.5) ndvi) = n" "length (truncate_or_fill n (Fin 0) ndwi) = n"
    "length (truncate_or_fill n (Fin 0) mndwi) = n" "length (truncate_or_fill n (Fin 0) ndsi) = n"
    using truncate_length [OF m] by simp_all
  with pos have ne: "truncate_or_fill n (Fin 0.5) ndvi \<noteq> []" "truncate_or_fill n (Fin 0) ndwi \<noteq> []"
    "truncate_or_fill n (Fin 0) mndwi \<noteq> []" "truncate_or_fill n (Fin 0) ndsi \<noteq> []"
    by auto
  from index_stats_entry_ok [OF ne(1)] obtain s1 where
    s1: "index_stats_entry ''NDVI'' (truncate_or_fill n (Fin 0.5) ndvi) = Inr [(''NDVI'', s1)]" by blast
  from index_stats_entry_ok [OF ne(2)] obtain s2 where
    s2: "index_stats_entry ''NDWI'' (truncate_or_fill n (Fin 0) ndwi) = Inr [(''NDWI'', s2)]" by blast
  from index_stats_entry_ok [OF ne(3)] obtain s3 where
    s3: "index_stats_entry ''MNDWI'' (truncate_or_fill n (Fin 0) mndwi) = Inr [(''MNDWI'', s3)]" by blast
  from index_stats_entry_ok [OF ne(4)] obtain s4 where
    s4: "index_stats_entry ''NDSI'' (truncate_or_fill n (Fin 0) ndsi) = Inr [(''NDSI'', s4)]" by blast
  from m have m': "py_min_list (filter ((<) 0) [length ndvi, length ndwi, length mndwi, length ndsi]) = Inr n"
    by simp
  show ?thesis
    using pos m' s1 s2 s3 s4
    by (simp add: create_index_stack_analysis_def create_index_stack_analysis_try_def Let_def
        land_cover_loop_length del: filter.simps)
qed


lemma stack_counts:
  assumes m: "py_min_list (filter (\<lambda>n. 0 < n) (map length [ndvi, ndwi, mndwi, ndsi])) = Inr n"
  shows "\<exists>r. create_index_stack_analysis
                \<lparr>is_ndvi = ndvi, is_ndwi = ndwi, is_mndwi = mndwi, is_ndsi = ndsi\<rparr> = Inr (StackResult r)
          \<and> sr_total_pixels r = n
          \<and> (\<forall>name. reported_count (sr_land_cover_stats r) name
                = length (filter (\<lambda>i. land_cover_rule_spec (index_at (Fin 0.5) ndvi i)
                     (index_at (Fin 0) ndwi i) (index_at (Fin 0) mndwi i) (index_at (Fin 0) ndsi i) = name)
                     [0..<n]))"
proof -
  define lc where "lc = land_cover_loop n (truncate_or_fill n (Fin 0.5) ndvi)
      (truncate_or_fill n (Fin 0) ndwi) (truncate_or_fill n (Fin 0) mndwi)
      (truncate_or_fill n (Fin 0) ndsi)"
  define rule where "rule = (\<lambda>i. land_cover_rule_spec (index_at (Fin 0.5) ndvi i)
      (index_at (Fin 0) ndwi i) (index_at (Fin 0) mndwi i) (index_at (Fin 0) ndsi i))"
  from stack_result_explicit [OF m] obtain r where
    r: "create_index_stack_analysis
          \<lparr>is_ndvi = ndvi, is_ndwi = ndwi, is_mndwi = mndwi, is_ndsi = ndsi\<rparr> = Inr (StackResult r)"
    and tot: "sr_total_pixels r = n"
    and st: "sr_land_cover_stats r = land_cover_stats_of (np_bincount lc 7) n"
    unfolding lc_def by blast
  have len: "length lc = n" by (simp add: lc_def land_cover_loop_length)
  have name_i: "land_cover_name (lc ! i) = rule i" if "i < n" for i
  proof -
    have "land_cover_name (lc ! i)
        = land_cover_rule_spec (truncate_or_fill n (Fin 0.5) ndvi ! i) (truncate_or_fill n (Fin 0) ndwi ! i)
            (truncate_or_fill n (Fin 0) mndwi ! i) (truncate_or_fill n (Fin 0) ndsi ! i)"
      unfolding lc_def by (rule land_cover_loop_name [OF that])
    also have "\<dots> = rule i"
      unfolding rule_def using truncate_index_at [OF m that] by simp
    finally show ?thesis .
  qed
  have range_i: "lc ! i < 7" if "i < n" for i
  proof -
    from that len have "lc ! i \<in> set lc" by simp
    then have "1 \<le> lc ! i \<and> lc ! i \<le> 6"
      unfolding lc_def by (rule land_cover_loop_range)
    then show ?thesis by simp
  qed
  have "reported_count (sr_land_cover_stats r) name = length (filter (\<lambda>i. rule i = name) [0..<n])"
    for name
  proof (cases "name \<in> land_cover_name ` set [0..<7]")
    case True
    then obtain k where k: "k < 7" and nk: "name = land_cover_name k" by auto
    have eq: "(lc ! i = k) = (rule i = name)" if "i \<in> set [0..<n]" for i
    proof -
      from that have i: "i < n" by simp
      have "(lc ! i = k) = (land_cover_name (lc ! i) = land_cover_name k)"
        using land_cover_name_inj range_i [OF i] k by (auto simp: inj_on_def)
      then show ?thesis using name_i [OF i] nk by simp
    qed
    have "reported_count (sr_land_cover_stats r) name = np_bincount lc 7 ! k"
      unfolding st nk by (rule reported_count_label [OF k])
    also have "\<dots> = count_list lc k" using k by (simp add: bincount_nth)
    also have "\<dots> = length (filter (\<lambda>i. lc ! i = k) [0..<n])"
      using count_list_filter_index [of lc k] len by simp
    also have "filter (\<lambda>i. lc ! i = k) [0..<n] = filter (\<lambda>i. rule i = name) [0..<n]"
      by (rule filter_cong [OF refl eq])
    finally show ?thesis .
  next
    case False
    have "rule i \<noteq> name" if "i < n" for i
    proof
      assume "rule i = name"
      with name_i [OF that] have "name = land_cover_name (lc ! i)" by simp
      with range_i [OF that] have "name \<in> land_cover_name ` set [0..<7]" by simp
      with False show False by simp
    qed
    then have "filter (\<lambda>i. rule i = name) [0..<n] = []" by (simp add: filter_empty_conv)
    moreover have "reported_count (sr_land_cover_stats r) name = 0"
      unfolding st by (rule reported_count_other [OF False])
    ultimately show ?thesis by simp
  qed
  with r tot show ?thesis unfolding rule_def by blast
qed

lemma snow_pixel_stats:
  "land_cover_stats_of
     (np_bincount (land_cover_loop 1 (truncate_or_fill 1 (Fin 0.5) [Fin 0.8])
        (truncate_or_fill 1 (Fin 0) [Fin 0.5]) (truncate_or_fill 1 (Fin 0) [m])
        (truncate_or_fill 1 (Fin 0) [Fin 0.5])) 7) 1
   = [(''Snow/Ice'',
       \<lparr>ce_percentage = fl_round (fl_mul (fl_div (Fin 1) (Fin 1)) (Fin 100)) 1,
        ce_pixel_count = 1, ce_color = ''#FF00FF''\<rparr>)]"
  by (simp add: land_cover_loop_def truncate_or_fill_def fl_gt_def np_bincount_def upt7
      land_cover_stats_of_def land_cover_map_def)

text \<open>
  C4. \<open>create_index_stack_analysis\<close> labels each pixel position of the common prefix of
  its input arrays (an absent array counts as the constant 0.5 for NDVI and 0 for the others)
  by the first rule that matches, in the order: ndsi > 0.4 Snow/Ice, mndwi > 0.3 or ndwi > 0.3
  Water, ndvi > 0.6 Dense Vegetation, ndvi > 0.2 Sparse Vegetation, ndvi < -0.1 Urban/Built-up,
  else Bare Soil/Rock. The function returns the labels as per-class pixel counts: whenever some
  array is non-empty it returns a result whose count for every class name is the number of
  pixel positions at which the first matching rule gives that name. A single pixel with
  ndsi 0.5, ndvi 0.8 and ndwi 0.5 is counted as Snow/Ice, which is then the dominant class.
\<close>

theorem land_cover_first_match_wins:
  assumes "py_min_list (filter (\<lambda>n. 0 < n) (map length [ndvi, ndwi, mndwi, ndsi])) = Inr n"
  shows "(\<exists>r. create_index_stack_analysis
                \<lparr>is_ndvi = ndvi, is_ndwi = ndwi, is_mndwi = mndwi, is_ndsi = ndsi\<rparr> = Inr (StackResult r)
            \<and> sr_total_pixels r = n
            \<and> (\<forall>name. reported_count (sr_land_cover_stats r) name
                  = length (filter (\<lambda>i. land_cover_rule_spec (index_at (Fin 0.5) ndvi i)
                       (index_at (Fin 0) ndwi i) (index_at (Fin 0) mndwi i) (index_at (Fin 0) ndsi i) = name)
                       [0..<n])))
       \<and> (\<exists>r. create_index_stack_analysis
                \<lparr>is_ndvi = [Fin 0.8], is_ndwi = [Fin 0.5], is_mndwi = [m], is_ndsi = [Fin 0.5]\<rparr>
                  = Inr (StackResult r)
            \<and> sr_total_pixels r = 1
            \<and> reported_count (sr_land_cover_stats r) ''Snow/Ice'' = 1
            \<and> sr_dominant_land_cover r = ''Snow/Ice'')"
proof (rule conjI)
  show "\<exists>r. create_index_stack_analysis
                \<lparr>is_ndvi = ndvi, is_ndwi = ndwi, is_mndwi = mndwi, is_ndsi = ndsi\<rparr> = Inr (StackResult r)
            \<and> sr_total_pixels r = n
            \<and> (\<forall>name. reported_count (sr_land_cover_stats r) name
                  = length (filter (\<lambda>i. land_cover_rule_spec (index_at (Fin 0.5) ndvi i)
                       (index_at (Fin 0) ndwi i) (index_at (Fin 0) mndwi i) (index_at (Fin 0) ndsi i) = name)
                       [0..<n]))"
    by (rule stack_counts [OF assms])
next
  have m1: "py_min_list (filter (\<lambda>n. 0 < n) (map length [[Fin 0.8], [Fin 0.5], [m], [Fin 0.5]])) = Inr 1"
    by (simp add: py_min_list_def)
  from stack_result_explicit [OF m1] obtain r where
    r: "create_index_stack_analysis
          \<lparr>is_ndvi = [Fin 0.8], is_ndwi = [Fin 0.5], is_mndwi = [m], is_ndsi = [Fin 0.5]\<rparr>
        = Inr (StackResult r)"
    and tot: "sr_total_pixels r = 1"
    and st: "sr_land_cover_stats r = land_cover_stats_of
     (np_bincount (land_cover_loop 1 (truncate_or_fill 1 (Fin 0.5) [Fin 0.8])
        (truncate_or_fill 1 (Fin 0) [Fin 0.5]) (truncate_or_fill 1 (Fin 0) [m])
        (truncate_or_fill 1 (Fin 0) [Fin 0.5])) 7) 1"
    and dom: "sr_dominant_land_cover r = dominant_of (sr_land_cover_stats r)"
    by blast
  have "reported_count (sr_land_cover_stats r) ''Snow/Ice'' = 1"
    unfolding st snow_pixel_stats by (simp add: reported_count_def)
  moreover have "sr_dominant_land_cover r = ''Snow/Ice''"
    unfolding dom st snow_pixel_stats by (simp add: dominant_of_def)
  ultimately show "\<exists>r. create_index_stack_analysis
                \<lparr>is_ndvi = [Fin 0.8], is_ndwi = [Fin 0.5], is_mndwi = [m], is_ndsi = [Fin 0.5]\<rparr>
                  = Inr (StackResult r)
            \<and> sr_total_pixels r = 1
            \<and> reported_count (sr_land_cover_stats r) ''Snow/Ice'' = 1
            \<and> sr_dominant_land_cover r = ''Snow/Ice''"
    using r tot by (intro exI [of _ r] conjI)
qed

theorem land_cover_first_match_wins_witness:
  "\<exists>r. create_index_stack_analysis
         \<lparr>is_ndvi = [Fin 0.8, Fin 0.7, Fin 0.1], is_ndwi = [Fin 0.5, Fin 0.1], is_mndwi = [],
          is_ndsi = [Fin 0.5, Fin 0.2]\<rparr> = Inr (StackResult r)
     \<and> sr_total_pixels r = 2
     \<and> reported_count (sr_land_cover_stats r) ''Snow/Ice'' = 1
     \<and> reported_count (sr_land_cover_stats r) ''Dense Vegetation'' = 1
     \<and> reported_count (sr_land_cover_stats r) ''Water'' = 0"
proof -
  have m: "py_min_list (filter (\<lambda>n. 0 < n)
      (map length [[Fin 0.8, Fin 0.7, Fin 0.1], [Fin 0.5, Fin 0.1], [], [Fin 0.5, Fin 0.2]])) = Inr 2"
    by (simp add: py_min_list_def)
  have two: "[0..<2] = [0, 1]" by (simp add: upt_rec)
  from land_cover_first_match_wins [OF m, THEN conjunct1] obtain r where
    r: "create_index_stack_analysis
         \<lparr>is_ndvi = [Fin 0.8, Fin 0.7, Fin 0.1], is_ndwi = [Fin 0.5, Fin 0.1], is_mndwi = [],
          is_ndsi = [Fin 0.5, Fin 0.2]\<rparr> = Inr (StackResult r)"
    and tot: "sr_total_pixels r = 2"
    and cnt: "\<forall>name. reported_count (sr_land_cover_stats r) name
        = length (filter (\<lambda>i. land_cover_rule_spec (index_at (Fin 0.5) [Fin 0.8, Fin 0.7, Fin 0.1] i)
             (index_at (Fin 0) [Fin 0.5, Fin 0.1] i) (index_at (Fin 0) [] i)
             (index_at (Fin 0) [Fin 0.5, Fin 0.2] i) = name) [0..<2])"
    by (elim conjE exE)
  have "reported_count (sr_land_cover_stats r) ''Snow/Ice'' = 1"
    unfolding cnt [rule_format] two
    by (simp add: index_at_def land_cover_rule_spec_def fl_gt_def)
  moreover have "reported_count (sr_land_cover_stats r) ''Dense Vegetation'' = 1"
    unfolding cnt [rule_format] two
    by (simp add: index_at_def land_cover_rule_spec_def fl_gt_def)
  moreover have "reported_count (sr_land_cover_stats r) ''Water'' = 0"
    unfolding cnt [rule_format] two
    by (simp add: index_at_def land_cover_rule_spec_def fl_gt_def)
  ultimately show ?thesis using r tot by (intro exI [of _ r] conjI)
qed

text \<open>
  C10. Every label the classification loop assigns is one of 1..6, that is Water, Snow/Ice,
  Dense Vegetation, Sparse Vegetation, Bare Soil/Rock or Urban/Built-up; label 0 (Unknown)
  is never assigned. Whenever \<open>create_index_stack_analysis\<close> returns an aggregate
  result, it covers at least one pixel, its statistics are not empty, Unknown is not among
  the reported names, and the dominant land cover is not Unknown.
\<close>

theorem land_cover_never_unknown:
  "(\<forall>k \<in> set (land_cover_loop n ndvi ndwi mndwi ndsi).
      1 \<le> k \<and> k \<le> 6
      \<and> land_cover_name k \<in> {''Water'', ''Snow/Ice'', ''Dense Vegetation'', ''Sparse Vegetation'',
                                ''Bare Soil/Rock'', ''Urban/Built-up''})
   \<and> (\<forall>r. create_index_stack_analysis indices = Inr (StackResult r) \<longrightarrow>
         0 < sr_total_pixels r
         \<and> sr_land_cover_stats r \<noteq> []
         \<and> ''Unknown'' \<notin> fst ` set (sr_land_cover_stats r)
         \<and> fst ` set (sr_land_cover_stats r)
             \<subseteq> {''Water'', ''Snow/Ice'', ''Dense Vegetation'', ''Sparse Vegetation'',
                 ''Bare Soil/Rock'', ''Urban/Built-up''}
         \<and> sr_dominant_land_cover r \<noteq> ''Unknown'')"
proof -
  have a: "\<forall>k \<in> set (land_cover_loop n ndvi ndwi mndwi ndsi).
      1 \<le> k \<and> k \<le> 6
      \<and> land_cover_name k \<in> {''Water'', ''Snow/Ice'', ''Dense Vegetation'', ''Sparse Vegetation'',
                                ''Bare Soil/Rock'', ''Urban/Built-up''}"
    using land_cover_loop_range names_of_labels by blast
  have b: "0 < sr_total_pixels r
         \<and> sr_land_cover_stats r \<noteq> []
         \<and> ''Unknown'' \<notin> fst ` set (sr_land_cover_stats r)
         \<and> fst ` set (sr_land_cover_stats r)
             \<subseteq> {''Water'', ''Snow/Ice'', ''Dense Vegetation'', ''Sparse Vegetation'',
                 ''Bare Soil/Rock'', ''Urban/Built-up''}
         \<and> sr_dominant_land_cover r \<noteq> ''Unknown''"
    if ok: "create_index_stack_analysis indices = Inr (StackResult r)" for r
  proof -
    from ok have "create_index_stack_analysis_try indices = Inr (StackResult r)"
      by (auto simp: create_index_stack_analysis_def split: sum.splits)
    from stack_result_stats [OF this] obtain m a b c d where m: "0 < m" "sr_total_pixels r = m"
      and st: "sr_land_cover_stats r = land_cover_stats_of (np_bincount (land_cover_loop m a b c d) 7) m"
      and dom: "sr_dominant_land_cover r = dominant_of (sr_land_cover_stats r)"
      by blast
    from stats_of_loop [OF m(1), of a b c d m] st
    have sub: "fst ` set (sr_land_cover_stats r)
             \<subseteq> {''Water'', ''Snow/Ice'', ''Dense Vegetation'', ''Sparse Vegetation'',
                 ''Bare Soil/Rock'', ''Urban/Built-up''}"
      and ne: "sr_land_cover_stats r \<noteq> []" by simp_all
    have unk: "''Unknown'' \<notin> {''Water'', ''Snow/Ice'', ''Dense Vegetation'', ''Sparse Vegetation'',
                 ''Bare Soil/Rock'', ''Urban/Built-up''}" by simp
    from dominant_mem [OF ne] dom have "sr_dominant_land_cover r \<in> fst ` set (sr_land_cover_stats r)"
      by simp
    with sub unk ne m show ?thesis by auto
  qed
  from a b show ?thesis by blast
qed

theorem land_cover_never_unknown_witness:
  "\<exists>r. create_index_stack_analysis
          \<lparr>is_ndvi = [Fin 0.8], is_ndwi = [Fin 0.5], is_mndwi = [], is_ndsi = [Fin 0.5]\<rparr>
          = Inr (StackResult r)
        \<and> map fst (sr_land_cover_stats r) = [''Snow/Ice'']
        \<and> sr_dominant_land_cover r = ''Snow/Ice''
        \<and> ''Unknown'' \<notin> fst ` set (sr_land_cover_stats r)"
proof -
  have "\<exists>r. create_index_stack_analysis
          \<lparr>is_ndvi = [Fin 0.8], is_ndwi = [Fin 0.5], is_mndwi = [], is_ndsi = [Fin 0.5]\<rparr>
          = Inr (StackResult r)
        \<and> map fst (sr_land_cover_stats r) = [''Snow/Ice'']
        \<and> sr_dominant_land_cover r = ''Snow/Ice''"
    by (simp add: create_index_stack_analysis_def create_index_stack_analysis_try_def Let_def
      py_min_list_def truncate_or_fill_def np_full_def index_stats_entry_def index_stats_of_def
      np_min_def np_max_def
      land_cover_loop_def fl_gt_def np_bincount_def land_cover_stats_of_def upt7
      land_cover_map_def dominant_of_def)
  then show ?thesis
  proof (elim exE conjE)
    fix r
    assume p: "create_index_stack_analysis
          \<lparr>is_ndvi = [Fin 0.8], is_ndwi = [Fin 0.5], is_mndwi = [], is_ndsi = [Fin 0.5]\<rparr>
          = Inr (StackResult r)"
      and q: "map fst (sr_land_cover_stats r) = [''Snow/Ice'']"
      and d: "sr_dominant_land_cover r = ''Snow/Ice''"
    note t = land_cover_never_unknown
      [of 1 "[Fin 0.8]" "[Fin 0.5]" "[Fin 0]" "[Fin 0.5]"
        "\<lparr>is_ndvi = [Fin 0.8], is_ndwi = [Fin 0.5], is_mndwi = [], is_ndsi = [Fin 0.5]\<rparr>",
       THEN conjunct2, rule_format, OF p]
    from t have u: "''Unknown'' \<notin> fst ` set (sr_land_cover_stats r)"
      by (elim conjE)
    from p q d u show ?thesis by (intro exI [of _ r] conjI)
  qed
qed

subsection \<open>Index functions\<close>

lemma eps_clip_list:
  "length a = length b \<Longrightarrow>
   np_clip (map2 fl_div (map2 fl_sub a b) (eps_guard (map2 fl_add a b))) (Fin (- 1)) (Fin 1)
     = map2 eps_clip_ratio a b"
  by (induction a b rule: list_induct2) (simp_all add: np_clip_def eps_guard_def eps_clip_ratio_def)

lemma calculate_ndvi_elementwise:
  assumes "length red = length nir"
  shows "calculate_ndvi red nir = Inr (map2 eps_clip_ratio nir red)"
proof (cases "red = []")
  case True
  with assms show ?thesis
    by (simp add: calculate_ndvi_def calculate_ndvi_try_def np_add_def np_sub_def np_div_def
        np_binop_def eps_guard_def np_clip_def np_min_def)
next
  case False
  let ?v = "map2 eps_clip_ratio nir red"
  from False assms have ne: "?v \<noteq> []" by (cases red; cases nir; simp)
  from np_min_nonempty [OF ne] obtain lo where lo: "np_min ?v = Inr lo" by blast
  from np_max_nonempty [OF ne] obtain hi where hi: "np_max ?v = Inr hi" by blast
  from assms have len: "length nir = length red" by simp
  show ?thesis
    using assms lo hi eps_clip_list [OF len]
    by (simp add: calculate_ndvi_def calculate_ndvi_try_def np_add_def np_sub_def np_div_def
        np_binop_def eps_guard_def)
qed

lemma calculate_ndwi_ndvi: "calculate_ndwi a b = calculate_ndvi b a"
  by (simp add: calculate_ndwi_def calculate_ndwi_try_def calculate_ndvi_def calculate_ndvi_try_def)

lemma calculate_mndwi_ndvi: "calculate_mndwi a b = calculate_ndvi b a"
  by (simp add: calculate_mndwi_def calculate_mndwi_try_def calculate_ndvi_def calculate_ndvi_try_def)

lemma calculate_ndsi_ndvi: "calculate_ndsi a b = calculate_ndvi b a"
  by (simp add: calculate_ndsi_def calculate_ndsi_try_def calculate_ndvi_def calculate_ndvi_try_def)

lemma calculate_ndvi_empty:
  "red = [] \<or> nir = [] \<Longrightarrow> calculate_ndvi red nir = Inr []"
  by (auto simp: calculate_ndvi_def calculate_ndvi_try_def np_add_def np_sub_def np_div_def
      np_binop_def eps_guard_def np_clip_def np_min_def)

lemma eps_clip_zero_denominator:
  assumes "fl_eq (fl_add a b) (Fin 0)"
  shows "\<exists>x. a = Fin x \<and> b = Fin (- x)
           \<and> eps_clip_ratio a b = Fin (max (- 1) (min 1 (2 * x * 10 ^ 10)))"
proof -
  from assms obtain x y where xy: "a = Fin x" "b = Fin y" "x + y = 0"
    by (cases a; cases b; simp)
  then have y: "y = - x" by simp
  show ?thesis
    using xy(1) y xy(2)
    by (simp add: eps_clip_ratio_def fl_sub_def fl_minimum_def fl_maximum_def max_def min_def)
qed

lemma eps_clip_finite:
  "\<exists>z. eps_clip_ratio (Fin x) (Fin y) = Fin z \<and> - 1 \<le> z \<and> z \<le> 1"
  by (simp add: eps_clip_ratio_def fl_sub_def fl_minimum_def fl_maximum_def)


lemma zero_check_zero_denominator:
  "fl_eq (fl_add a b) (Fin 0) \<Longrightarrow> zero_check_ratio a b = Fin 0"
  by (simp add: zero_check_ratio_def fl_ne_def)

lemma zero_check_finite:
  "zero_check_ratio (Fin x) (Fin y) = Fin (if x + y = 0 then 0 else (x - y) / (x + y))"
  by (simp add: zero_check_ratio_def fl_ne_def fl_sub_def)

lemma ratio_bounded:
  assumes "0 \<le> x" "0 \<le> y"
  shows "- 1 \<le> (if x + y = 0 then 0 else (x - y) / (x + y))
         \<and> (if x + y = 0 then 0 else (x - y) / (x + y)) \<le> (1::real)"
proof (cases "x + y = 0")
  case True
  then show ?thesis by simp
next
  case False
  with assms have p: "0 < x + y" by simp
  then have "- 1 \<le> (x - y) / (x + y)" using assms by (simp add: pos_le_divide_eq)
  moreover have "(x - y) / (x + y) \<le> 1" using p assms by (simp add: pos_divide_le_eq)
  ultimately show ?thesis using False by simp
qed

lemma where_ratio_list:
  "length a = length b \<Longrightarrow>
   np_where0 (map (\<lambda>d. fl_ne d (Fin 0)) (map2 fl_add a b)) (map2 fl_div (map2 fl_sub a b) (map2 fl_add a b))
     = map2 zero_check_ratio a b"
  by (induction a b rule: list_induct2) (simp_all add: np_where0_def zero_check_ratio_def)

lemma where_ratio_elementwise:
  assumes "length a = length b"
  shows "where_ratio a b = Inr (map2 zero_check_ratio a b)"
proof -
  have "where_ratio a b
          = Inr (np_where0 (map (\<lambda>d. fl_ne d (Fin 0)) (map2 fl_add a b))
                           (map2 fl_div (map2 fl_sub a b) (map2 fl_add a b)))"
    using assms by (simp add: where_ratio_def np_add_def np_sub_def np_div_def np_binop_def)
  then show ?thesis by (simp only: where_ratio_list [OF assms])
qed

lemma get_stats_values:
  assumes "vals \<noteq> []"
  shows "\<exists>s. get_stats vals = Inr s \<and> st_values s = vals"
proof -
  from np_min_nonempty [OF assms] obtain lo where "np_min vals = Inr lo" by blast
  moreover from np_max_nonempty [OF assms] obtain hi where "np_max vals = Inr hi" by blast
  ultimately show ?thesis by (simp add: get_stats_def)
qed

lemma get_stats_empty: "\<exists>e. get_stats [] = Inl e"
  by (simp add: get_stats_def np_min_def)

lemma where_ratio_right_empty: "where_ratio a [] = Inr x \<Longrightarrow> x = []"
  by (auto simp: where_ratio_def np_add_def np_sub_def np_div_def np_binop_def np_where0_def
      bind_err_def split: if_splits sum.splits)

lemma where_ratio_left_empty: "where_ratio [] b = Inr x \<Longrightarrow> x = []"
  by (auto simp: where_ratio_def np_add_def np_sub_def np_div_def np_binop_def np_where0_def
      bind_err_def split: if_splits sum.splits)

lemma spectral_values_equal_lengths:
  assumes "length red = n" "length green = n" "length nir = n" "length swir = n" "0 < n"
  shows "spectral_index_values fmul \<lparr>sd_red = red, sd_green = green, sd_nir = nir, sd_swir = swir\<rparr> None ''ndvi''
           = map2 zero_check_ratio nir red"
    and "spectral_index_values fmul \<lparr>sd_red = red, sd_green = green, sd_nir = nir, sd_swir = swir\<rparr> None ''ndwi''
           = map2 zero_check_ratio nir swir"
    and "spectral_index_values fmul \<lparr>sd_red = red, sd_green = green, sd_nir = nir, sd_swir = swir\<rparr> None ''mndwi''
           = map2 zero_check_ratio green swir"
    and "spectral_index_values fmul \<lparr>sd_red = red, sd_green = green, sd_nir = nir, sd_swir = swir\<rparr> None ''ndsi''
           = map2 zero_check_ratio swir green"
    and "spectral_index_values fmul \<lparr>sd_red = red, sd_green = green, sd_nir = nir, sd_swir = swir\<rparr> None ''red_edge_ndvi''
           = map2 zero_check_ratio (np_scale fmul nir (Fin 1.1)) (np_scale fmul red (Fin 0.9))"
proof -
  let ?ndvi = "map2 zero_check_ratio nir red"
  let ?ndwi = "map2 zero_check_ratio nir swir"
  let ?mndwi = "map2 zero_check_ratio green swir"
  let ?ndsi = "map2 zero_check_ratio swir green"
  let ?re = "map2 zero_check_ratio (np_scale fmul nir (Fin 1.1)) (np_scale fmul red (Fin 0.9))"
  have ne: "?ndvi \<noteq> []" "?ndwi \<noteq> []" "?mndwi \<noteq> []" "?ndsi \<noteq> []" "?re \<noteq> []"
    using assms by (auto simp: np_scale_def)
  from get_stats_values [OF ne(1)] obtain s1 where s1: "get_stats ?ndvi = Inr s1" "st_values s1 = ?ndvi" by blast
  from get_stats_values [OF ne(2)] obtain s2 where s2: "get_stats ?ndwi = Inr s2" "st_values s2 = ?ndwi" by blast
  from get_stats_values [OF ne(3)] obtain s3 where s3: "get_stats ?mndwi = Inr s3" "st_values s3 = ?mndwi" by blast
  from get_stats_values [OF ne(4)] obtain s4 where s4: "get_stats ?ndsi = Inr s4" "st_values s4 = ?ndsi" by blast
  from get_stats_values [OF ne(5)] obtain s5 where s5: "get_stats ?re = Inr s5" "st_values s5 = ?re" by blast
  have nonempty: "red \<noteq> []" "nir \<noteq> []" using assms by auto
  have r: "calculate_spectral_indices fmul \<lparr>sd_red = red, sd_green = green, sd_nir = nir, sd_swir = swir\<rparr> None
             = Inr [(''ndvi'', s1), (''ndwi'', s2), (''mndwi'', s3), (''ndsi'', s4), (''red_edge_ndvi'', s5)]"
    using assms nonempty s1(1) s2(1) s3(1) s4(1) s5(1)
    by (simp add: calculate_spectral_indices_def calculate_spectral_indices_try_def
        where_ratio_elementwise np_scale_def)
  show "spectral_index_values fmul \<lparr>sd_red = red, sd_green = green, sd_nir = nir, sd_swir = swir\<rparr> None ''ndvi'' = ?ndvi"
    by (simp add: spectral_index_values_def r s1(2))
  show "spectral_index_values fmul \<lparr>sd_red = red, sd_green = green, sd_nir = nir, sd_swir = swir\<rparr> None ''ndwi'' = ?ndwi"
    by (simp add: spectral_index_values_def r s2(2))
  show "spectral_index_values fmul \<lparr>sd_red = red, sd_green = green, sd_nir = nir, sd_swir = swir\<rparr> None ''mndwi'' = ?mndwi"
    by (simp add: spectral_index_values_def r s3(2))
  show "spectral_index_values fmul \<lparr>sd_red = red, sd_green = green, sd_nir = nir, sd_swir = swir\<rparr> None ''ndsi'' = ?ndsi"
    by (simp add: spectral_index_values_def r s4(2))
  show "spectral_index_values fmul \<lparr>sd_red = red, sd_green = green, sd_nir = nir, sd_swir = swir\<rparr> None ''red_edge_ndvi'' = ?re"
    by (simp add: spectral_index_values_def r s5(2))
qed

lemma spectral_indices_empty:
  assumes "sd_red sd = [] \<or> sd_nir sd = [] \<or> sd_green sd = [] \<or> sd_swir sd = []"
  shows "calculate_spectral_indices fmul sd real_ndvi = Inr []"
proof -
  have "\<exists>e. calculate_spectral_indices_try fmul sd real_ndvi = Inl e"
    using assms get_stats_empty
    by (auto simp: calculate_spectral_indices_try_def Let_def bind_err_def
        split: sum.splits option.splits
        dest!: where_ratio_right_empty where_ratio_left_empty)
  then show ?thesis by (auto simp: calculate_spectral_indices_def)
qed

lemma standalone_at:
  assumes "length a = length b" "i < length a"
  shows "\<exists>v. calculate_ndvi b a = Inr v \<and> length v = length a \<and> v ! i = eps_clip_ratio (a ! i) (b ! i)"
  using assms calculate_ndvi_elementwise [of b a] by simp

lemma standalone_zero_at:
  assumes "length a = length b" "i < length a" "fl_eq (fl_add (a ! i) (b ! i)) (Fin 0)"
  shows "\<exists>v x. calculate_ndvi b a = Inr v \<and> length v = length a \<and> a ! i = Fin x \<and> b ! i = Fin (- x)
           \<and> v ! i = Fin (max (- 1) (min 1 (2 * x * 10 ^ 10)))"
proof -
  from standalone_at [OF assms(1,2)] obtain v where v: "calculate_ndvi b a = Inr v"
    "length v = length a" "v ! i = eps_clip_ratio (a ! i) (b ! i)" by blast
  from eps_clip_zero_denominator [OF assms(3)] obtain x where "a ! i = Fin x" "b ! i = Fin (- x)"
    "eps_clip_ratio (a ! i) (b ! i) = Fin (max (- 1) (min 1 (2 * x * 10 ^ 10)))" by blast
  with v show ?thesis by auto
qed

lemma map2_nth: "length a = length b \<Longrightarrow> i < length a \<Longrightarrow> map2 f a b ! i = f (a ! i) (b ! i)"
  by simp

text \<open>
  C1 (as the code has it). For equal-length band arrays and every pixel where the
  denominator of an index is exactly zero: the index computation of the hyperspectral
  analyzer (NDVI, NDWI, MNDWI, NDSI, Red-Edge-NDVI) outputs 0 there; the standalone
  functions \<open>calculate_ndvi\<close>, \<open>calculate_ndwi\<close>, \<open>calculate_mndwi\<close> and \<open>calculate_ndsi\<close>
  divide by \<open>1e-10\<close> instead and clip, so with the two band values \<open>x\<close> and \<open>-x\<close> their
  output is \<open>2x * 1e10\<close> clipped to \<open>[-1, 1]\<close>: 0 when both bands are 0, and 1 or -1 once the
  numerator reaches \<open>1e-10\<close> in magnitude.
\<close>

theorem zero_denominator_outputs:
  assumes "length red = n" "length green = n" "length nir = n" "length swir = n" "i < n"
  shows
   "(fl_eq (fl_add (nir ! i) (red ! i)) (Fin 0) \<longrightarrow>
       spectral_index_values fmul \<lparr>sd_red = red, sd_green = green, sd_nir = nir, sd_swir = swir\<rparr> None ''ndvi'' ! i = Fin 0)
    \<and> (fl_eq (fl_add (nir ! i) (swir ! i)) (Fin 0) \<longrightarrow>
       spectral_index_values fmul \<lparr>sd_red = red, sd_green = green, sd_nir = nir, sd_swir = swir\<rparr> None ''ndwi'' ! i = Fin 0)
    \<and> (fl_eq (fl_add (green ! i) (swir ! i)) (Fin 0) \<longrightarrow>
       spectral_index_values fmul \<lparr>sd_red = red, sd_green = green, sd_nir = nir, sd_swir = swir\<rparr> None ''mndwi'' ! i = Fin 0)
    \<and> (fl_eq (fl_add (swir ! i) (green ! i)) (Fin 0) \<longrightarrow>
       spectral_index_values fmul \<lparr>sd_red = red, sd_green = green, sd_nir = nir, sd_swir = swir\<rparr> None ''ndsi'' ! i = Fin 0)
    \<and> (fl_eq (fl_add (fmul (nir ! i) (Fin 1.1)) (fmul (red ! i) (Fin 0.9))) (Fin 0) \<longrightarrow>
       spectral_index_values fmul \<lparr>sd_red = red, sd_green = green, sd_nir = nir, sd_swir = swir\<rparr> None ''red_edge_ndvi'' ! i = Fin 0)
    \<and> (fl_eq (fl_add (nir ! i) (red ! i)) (Fin 0) \<longrightarrow>
       (\<exists>v x. calculate_ndvi red nir = Inr v \<and> length v = n \<and> nir ! i = Fin x \<and> red ! i = Fin (- x)
              \<and> v ! i = Fin (max (- 1) (min 1 (2 * x * 10 ^ 10)))))
    \<and> (fl_eq (fl_add (nir ! i) (swir ! i)) (Fin 0) \<longrightarrow>
       (\<exists>v x. calculate_ndwi nir swir = Inr v \<and> length v = n \<and> nir ! i = Fin x \<and> swir ! i = Fin (- x)
              \<and> v ! i = Fin (max (- 1) (min 1 (2 * x * 10 ^ 10)))))
    \<and> (fl_eq (fl_add (green ! i) (swir ! i)) (Fin 0) \<longrightarrow>
       (\<exists>v x. calculate_mndwi green swir = Inr v \<and> length v = n \<and> green ! i = Fin x \<and> swir ! i = Fin (- x)
              \<and> v ! i = Fin (max (- 1) (min 1 (2 * x * 10 ^ 10)))))
    \<and> (fl_eq (fl_add (green ! i) (swir ! i)) (Fin 0) \<longrightarrow>
       (\<exists>v x. calculate_ndsi green swir = Inr v \<and> length v = n \<and> green ! i = Fin x \<and> swir ! i = Fin (- x)
              \<and> v ! i = Fin (max (- 1) (min 1 (2 * x * 10 ^ 10)))))"
proof -
  from assms have pos: "0 < n" by simp
  note hs = spectral_values_equal_lengths [OF assms(1-4) pos]
  have h1: "fl_eq (fl_add (nir ! i) (red ! i)) (Fin 0) \<longrightarrow>
       spectral_index_values fmul \<lparr>sd_red = red, sd_green = green, sd_nir = nir, sd_swir = swir\<rparr> None ''ndvi'' ! i = Fin 0"
    using assms by (simp add: hs(1) zero_check_zero_denominator)
  have h2: "fl_eq (fl_add (nir ! i) (swir ! i)) (Fin 0) \<longrightarrow>
       spectral_index_values fmul \<lparr>sd_red = red, sd_green = green, sd_nir = nir, sd_swir = swir\<rparr> None ''ndwi'' ! i = Fin 0"
    using assms by (simp add: hs(2) zero_check_zero_denominator)
  have h3: "fl_eq (fl_add (green ! i) (swir ! i)) (Fin 0) \<longrightarrow>
       spectral_index_values fmul \<lparr>sd_red = red, sd_green = green, sd_nir = nir, sd_swir = swir\<rparr> None ''mndwi'' ! i = Fin 0"
    using assms by (simp add: hs(3) zero_check_zero_denominator)
  have h4: "fl_eq (fl_add (swir ! i) (green ! i)) (Fin 0) \<longrightarrow>
       spectral_index_values fmul \<lparr>sd_red = red, sd_green = green, sd_nir = nir, sd_swir = swir\<rparr> None ''ndsi'' ! i = Fin 0"
    using assms by (simp add: hs(4) zero_check_zero_denominator)
  have h5: "fl_eq (fl_add (fmul (nir ! i) (Fin 1.1)) (fmul (red ! i) (Fin 0.9))) (Fin 0) \<longrightarrow>
       spectral_index_values fmul \<lparr>sd_red = red, sd_green = green, sd_nir = nir, sd_swir = swir\<rparr> None ''red_edge_ndvi'' ! i = Fin 0"
    using assms by (simp add: hs(5) np_scale_def zero_check_zero_denominator)
  have s1: "fl_eq (fl_add (nir ! i) (red ! i)) (Fin 0) \<longrightarrow>
       (\<exists>v x. calculate_ndvi red nir = Inr v \<and> length v = n \<and> nir ! i = Fin x \<and> red ! i = Fin (- x)
              \<and> v ! i = Fin (max (- 1) (min 1 (2 * x * 10 ^ 10))))"
    using standalone_zero_at [of nir red i] assms by simp
  have s2: "fl_eq (fl_add (nir ! i) (swir ! i)) (Fin 0) \<longrightarrow>
       (\<exists>v x. calculate_ndwi nir swir = Inr v \<and> length v = n \<and> nir ! i = Fin x \<and> swir ! i = Fin (- x)
              \<and> v ! i = Fin (max (- 1) (min 1 (2 * x * 10 ^ 10))))"
    using standalone_zero_at [of nir swir i] assms by (simp add: calculate_ndwi_ndvi)
  have s3: "fl_eq (fl_add (green ! i) (swir ! i)) (Fin 0) \<longrightarrow>
       (\<exists>v x. calculate_mndwi green swir = Inr v \<and> length v = n \<and> green ! i = Fin x \<and> swir ! i = Fin (- x)
              \<and> v ! i = Fin (max (- 1) (min 1 (2 * x * 10 ^ 10))))"
    using standalone_zero_at [of green swir i] assms by (simp add: calculate_mndwi_ndvi)
  have s4: "fl_eq (fl_add (green ! i) (swir ! i)) (Fin 0) \<longrightarrow>
       (\<exists>v x. calculate_ndsi green swir = Inr v \<and> length v = n \<and> green ! i = Fin x \<and> swir ! i = Fin (- x)
              \<and> v ! i = Fin (max (- 1) (min 1 (2 * x * 10 ^ 10))))"
    using standalone_zero_at [of green swir i] assms by (simp add: calculate_ndsi_ndvi)
  show ?thesis
    by (intro conjI) (rule h1 h2 h3 h4 h5 s1 s2 s3 s4)+
qed

theorem zero_denominator_outputs_witness:
  "spectral_index_values fl_mul
     \<lparr>sd_red = [Fin (- 0.5)], sd_green = [Fin 0.1], sd_nir = [Fin 0.5], sd_swir = [Fin 0.1]\<rparr>
     None ''ndvi'' ! 0 = Fin 0
   \<and> (\<exists>v. calculate_ndvi [Fin (- 0.5)] [Fin 0.5] = Inr v \<and> v ! 0 = Fin 1)
   \<and> spectral_index_values fl_mul
       \<lparr>sd_red = [Fin 0], sd_green = [Fin 0.1], sd_nir = [Fin 0], sd_swir = [Fin 0.1]\<rparr>
       None ''red_edge_ndvi'' ! 0 = Fin 0"
  using zero_denominator_outputs
    [where fmul = fl_mul and red = "[Fin (- 0.5)]" and n = 1 and green = "[Fin 0.1]"
       and nir = "[Fin 0.5]" and swir = "[Fin 0.1]" and i = 0]
    zero_denominator_outputs
    [where fmul = fl_mul and red = "[Fin 0]" and n = 1 and green = "[Fin 0.1]"
       and nir = "[Fin 0]" and swir = "[Fin 0.1]" and i = 0]
  by (auto simp: min_def max_def)

text \<open>
  With red -0.5 and nir 0.5 the denominator is zero and the numerator is 1:
  \<open>calculate_ndvi\<close> returns 1, not 0.
\<close>

theorem zero_denominator_counterexample:
  "calculate_ndvi [Fin (- 0.5)] [Fin 0.5] = Inr [Fin 1]"
  by (simp add: calculate_ndvi_elementwise eps_clip_ratio_def fl_sub_def fl_minimum_def fl_maximum_def)

lemma finite_cases: "is_finite e \<Longrightarrow> \<exists>y. e = Fin y"
  by (cases e) simp_all

lemma map2_list_all:
  assumes "\<And>x y. x \<in> set a \<Longrightarrow> y \<in> set b \<Longrightarrow> P (f x y)"
  shows "list_all P (map2 f a b)"
  using assms by (auto simp: list_all_iff dest: set_zip_leftD set_zip_rightD)

lemma eps_clip_in_range:
  "is_finite x \<Longrightarrow> is_finite y \<Longrightarrow> in_unit_range (eps_clip_ratio x y)"
  using eps_clip_finite by (cases x; cases y; simp) (metis in_unit_range.simps(1))

lemma standalone_in_range:
  assumes "length a = length b" "list_all is_finite a" "list_all is_finite b"
  shows "\<exists>v. calculate_ndvi b a = Inr v \<and> length v = length a \<and> list_all in_unit_range v"
proof -
  have "list_all in_unit_range (map2 eps_clip_ratio a b)"
    using assms(2,3) by (intro map2_list_all eps_clip_in_range) (auto simp: list_all_iff)
  with assms(1) calculate_ndvi_elementwise [of b a] show ?thesis by simp
qed

lemma zero_check_is_finite:
  "is_finite x \<Longrightarrow> is_finite y \<Longrightarrow> is_finite (zero_check_ratio x y)"
  by (cases x; cases y; simp add: zero_check_finite)

lemma zero_check_in_range:
  assumes "is_finite x" "is_finite y" "fl_le (Fin 0) x" "fl_le (Fin 0) y"
  shows "in_unit_range (zero_check_ratio x y)"
proof -
  from assms obtain p q where pq: "x = Fin p" "y = Fin q" "0 \<le> p" "0 \<le> q"
    by (cases x; cases y; auto simp: fl_le_def)
  with ratio_bounded [of p q] show ?thesis by (simp add: zero_check_finite)
qed

lemma hs_finite:
  assumes "list_all is_finite a" "list_all is_finite b"
  shows "list_all is_finite (map2 zero_check_ratio a b)"
  using assms by (intro map2_list_all zero_check_is_finite) (auto simp: list_all_iff)

lemma hs_in_range:
  assumes "list_all is_finite a" "list_all is_finite b"
    "list_all (fl_le (Fin 0)) a" "list_all (fl_le (Fin 0)) b"
  shows "list_all in_unit_range (map2 zero_check_ratio a b)"
  using assms by (intro map2_list_all zero_check_in_range) (auto simp: list_all_iff)


text \<open>
  C2 (as the code has it). For equal-length, element-wise finite band arrays, every element
  of the output of the standalone functions \<open>calculate_ndvi\<close>, \<open>calculate_ndwi\<close>,
  \<open>calculate_mndwi\<close> and \<open>calculate_ndsi\<close> is a finite value in \<open>[-1, 1]\<close>: they clip.
  The index computation of the hyperspectral analyzer does not clip. Its five arrays have
  the length of the bands; its NDVI, NDWI, MNDWI and NDSI values are finite values in
  \<open>[-1, 1]\<close> when no band value is negative, and its Red-Edge-NDVI values are when the
  scaled bands \<open>nir * 1.1\<close> and \<open>red * 0.9\<close> are finite and not negative.
\<close>

theorem index_outputs_in_unit_range:
  assumes "length red = n" "length green = n" "length nir = n" "length swir = n"
    and "list_all is_finite red" "list_all is_finite green"
        "list_all is_finite nir" "list_all is_finite swir"
  shows
   "(\<exists>v. calculate_ndvi red nir = Inr v \<and> length v = n \<and> list_all in_unit_range v)
    \<and> (\<exists>v. calculate_ndwi nir swir = Inr v \<and> length v = n \<and> list_all in_unit_range v)
    \<and> (\<exists>v. calculate_mndwi green swir = Inr v \<and> length v = n \<and> list_all in_unit_range v)
    \<and> (\<exists>v. calculate_ndsi green swir = Inr v \<and> length v = n \<and> list_all in_unit_range v)
    \<and> (0 < n \<longrightarrow>
         (\<forall>name \<in> set [''ndvi'', ''ndwi'', ''mndwi'', ''ndsi'', ''red_edge_ndvi''].
            length (spectral_index_values fmul
                      \<lparr>sd_red = red, sd_green = green, sd_nir = nir, sd_swir = swir\<rparr> None name) = n))
    \<and> (0 < n \<and> list_all (fl_le (Fin 0)) red \<and> list_all (fl_le (Fin 0)) green
          \<and> list_all (fl_le (Fin 0)) nir \<and> list_all (fl_le (Fin 0)) swir \<longrightarrow>
         (\<forall>name \<in> set [''ndvi'', ''ndwi'', ''mndwi'', ''ndsi''].
            list_all in_unit_range
              (spectral_index_values fmul
                 \<lparr>sd_red = red, sd_green = green, sd_nir = nir, sd_swir = swir\<rparr> None name)))
    \<and> (0 < n \<and> list_all is_finite (np_scale fmul nir (Fin 1.1))
          \<and> list_all is_finite (np_scale fmul red (Fin 0.9))
          \<and> list_all (fl_le (Fin 0)) (np_scale fmul nir (Fin 1.1))
          \<and> list_all (fl_le (Fin 0)) (np_scale fmul red (Fin 0.9)) \<longrightarrow>
         list_all in_unit_range
           (spectral_index_values fmul
              \<lparr>sd_red = red, sd_green = green, sd_nir = nir, sd_swir = swir\<rparr> None ''red_edge_ndvi''))"
proof -
  have a: "\<exists>v. calculate_ndvi red nir = Inr v \<and> length v = n \<and> list_all in_unit_range v"
    using standalone_in_range [of nir red] assms by simp
  have b: "\<exists>v. calculate_ndwi nir swir = Inr v \<and> length v = n \<and> list_all in_unit_range v"
    using standalone_in_range [of nir swir] assms by (simp add: calculate_ndwi_ndvi)
  have c: "\<exists>v. calculate_mndwi green swir = Inr v \<and> length v = n \<and> list_all in_unit_range v"
    using standalone_in_range [of green swir] assms by (simp add: calculate_mndwi_ndvi)
  have d: "\<exists>v. calculate_ndsi green swir = Inr v \<and> length v = n \<and> list_all in_unit_range v"
    using standalone_in_range [of green swir] assms by (simp add: calculate_ndsi_ndvi)
  have e: "\<forall>name \<in> set [''ndvi'', ''ndwi'', ''mndwi'', ''ndsi'', ''red_edge_ndvi''].
            length (spectral_index_values fmul
                      \<lparr>sd_red = red, sd_green = green, sd_nir = nir, sd_swir = swir\<rparr> None name) = n"
    if pos: "0 < n"
    using assms(1-4) by (simp add: spectral_values_equal_lengths [OF assms(1-4) pos] np_scale_def)
  have f: "\<forall>name \<in> set [''ndvi'', ''ndwi'', ''mndwi'', ''ndsi''].
            list_all in_unit_range
              (spectral_index_values fmul
                 \<lparr>sd_red = red, sd_green = green, sd_nir = nir, sd_swir = swir\<rparr> None name)"
    if h: "0 < n \<and> list_all (fl_le (Fin 0)) red \<and> list_all (fl_le (Fin 0)) green
          \<and> list_all (fl_le (Fin 0)) nir \<and> list_all (fl_le (Fin 0)) swir"
  proof -
    from h have pos: "0 < n" by simp
    show ?thesis
      using assms(5-8) h
      by (simp add: spectral_values_equal_lengths [OF assms(1-4) pos] hs_in_range)
  qed
  have g: "list_all in_unit_range
           (spectral_index_values fmul
              \<lparr>sd_red = red, sd_green = green, sd_nir = nir, sd_swir = swir\<rparr> None ''red_edge_ndvi'')"
    if h: "0 < n \<and> list_all is_finite (np_scale fmul nir (Fin 1.1))
          \<and> list_all is_finite (np_scale fmul red (Fin 0.9))
          \<and> list_all (fl_le (Fin 0)) (np_scale fmul nir (Fin 1.1))
          \<and> list_all (fl_le (Fin 0)) (np_scale fmul red (Fin 0.9))"
  proof -
    from h have pos: "0 < n" by simp
    show ?thesis
      using h by (simp add: spectral_values_equal_lengths(5) [OF assms(1-4) pos] hs_in_range)
  qed
  from a b c d e f g show ?thesis by (intro conjI impI) assumption+
qed

theorem index_outputs_in_unit_range_witness:
  "(\<exists>v. calculate_ndvi [Fin 0.05, Fin 0.06] [Fin 0.6, Fin 0.7] = Inr v \<and> length v = 2
        \<and> list_all in_unit_range v)
   \<and> list_all in_unit_range
        (spectral_index_values fl_mul
           \<lparr>sd_red = [Fin 0.05, Fin 0.06], sd_green = [Fin 0.07, Fin 0.08],
            sd_nir = [Fin 0.6, Fin 0.7], sd_swir = [Fin 0.1, Fin 0.12]\<rparr> None ''ndvi'')
   \<and> list_all in_unit_range
        (spectral_index_values fl_mul
           \<lparr>sd_red = [Fin 0.05, Fin 0.06], sd_green = [Fin 0.07, Fin 0.08],
            sd_nir = [Fin 0.6, Fin 0.7], sd_swir = [Fin 0.1, Fin 0.12]\<rparr> None ''red_edge_ndvi'')"
  using index_outputs_in_unit_range
    [where fmul = fl_mul and red = "[Fin 0.05, Fin 0.06]" and n = 2
       and green = "[Fin 0.07, Fin 0.08]" and nir = "[Fin 0.6, Fin 0.7]"
       and swir = "[Fin 0.1, Fin 0.12]"]
  by (simp add: fl_le_def np_scale_def)

text \<open>
  With red -0.25 and nir 0.5 the analyzer's NDVI is 0.75 / 0.25 = 3, outside \<open>[-1, 1]\<close>.
\<close>

theorem index_outputs_counterexample:
  "spectral_index_values fl_mul
     \<lparr>sd_red = [Fin (- 0.25)], sd_green = [Fin 0.1], sd_nir = [Fin 0.5], sd_swir = [Fin 0.1]\<rparr>
     None ''ndvi'' = [Fin 3]"
  by (simp add: spectral_values_equal_lengths [of _ 1] zero_check_finite)


lemma calculate_ndvi_total: "\<exists>v. calculate_ndvi a b = Inr v"
  by (simp add: calculate_ndvi_def split: sum.splits)






lemma all_indices_missing:
  "calculate_all_indices_try d = Inr r \<Longrightarrow>
     (sd_red d = [] \<or> sd_nir d = [] \<longrightarrow> map_of r ''ndvi'' = None)
   \<and> (sd_nir d = [] \<or> sd_swir d = [] \<longrightarrow> map_of r ''ndwi'' = None)
   \<and> (sd_green d = [] \<or> sd_swir d = [] \<longrightarrow> map_of r ''mndwi'' = None \<and> map_of r ''ndsi'' = None)"
  by (auto simp: calculate_all_indices_try_def Let_def bind_err_def split: if_splits sum.splits)

lemma all_indices_total_try: "\<exists>r. calculate_all_indices_try d = Inr r"
proof -
  obtain v1 where v1: "calculate_ndvi (sd_red d) (sd_nir d) = Inr v1" using calculate_ndvi_total by blast
  obtain v2 where v2: "calculate_ndvi (sd_swir d) (sd_nir d) = Inr v2" using calculate_ndvi_total by blast
  obtain v3 where v3: "calculate_ndvi (sd_swir d) (sd_green d) = Inr v3" using calculate_ndvi_total by blast
  show ?thesis
    using v1 v2 v3
    by (simp add: calculate_all_indices_try_def Let_def calculate_ndwi_ndvi calculate_mndwi_ndvi
        calculate_ndsi_ndvi)
qed

text \<open>
  C7 (as the code has it). When a band that an index needs is empty, no failure reaches the
  caller: each standalone index function returns the empty array, the hyperspectral
  analyzer returns the empty dictionary (also when green or swir is empty), and the batch
  entry point \<open>calculate_all_indices\<close> returns a dictionary without that index.
\<close>

theorem empty_band_returns_empty:
  "(red = [] \<or> nir = [] \<longrightarrow> calculate_ndvi red nir = Inr [])
   \<and> (nir = [] \<or> swir = [] \<longrightarrow> calculate_ndwi nir swir = Inr [])
   \<and> (green = [] \<or> swir = [] \<longrightarrow>
        calculate_mndwi green swir = Inr [] \<and> calculate_ndsi green swir = Inr [])
   \<and> (red = [] \<or> nir = [] \<or> green = [] \<or> swir = [] \<longrightarrow>
        calculate_spectral_indices fmul
          \<lparr>sd_red = red, sd_green = green, sd_nir = nir, sd_swir = swir\<rparr> real_ndvi = Inr [])
   \<and> (\<exists>r. calculate_all_indices
              \<lparr>sd_red = red, sd_green = green, sd_nir = nir, sd_swir = swir\<rparr> = Inr r
         \<and> (red = [] \<or> nir = [] \<longrightarrow> map_of r ''ndvi'' = None)
         \<and> (nir = [] \<or> swir = [] \<longrightarrow> map_of r ''ndwi'' = None)
         \<and> (green = [] \<or> swir = [] \<longrightarrow> map_of r ''mndwi'' = None \<and> map_of r ''ndsi'' = None))"
proof -
  have a: "red = [] \<or> nir = [] \<longrightarrow> calculate_ndvi red nir = Inr []"
    using calculate_ndvi_empty by blast
  have b: "nir = [] \<or> swir = [] \<longrightarrow> calculate_ndwi nir swir = Inr []"
    using calculate_ndvi_empty [of swir nir] by (auto simp: calculate_ndwi_ndvi)
  have c: "green = [] \<or> swir = [] \<longrightarrow>
        calculate_mndwi green swir = Inr [] \<and> calculate_ndsi green swir = Inr []"
    using calculate_ndvi_empty [of swir green] by (auto simp: calculate_mndwi_ndvi calculate_ndsi_ndvi)
  have d: "red = [] \<or> nir = [] \<or> green = [] \<or> swir = [] \<longrightarrow>
        calculate_spectral_indices fmul
          \<lparr>sd_red = red, sd_green = green, sd_nir = nir, sd_swir = swir\<rparr> real_ndvi = Inr []"
    using spectral_indices_empty [of "\<lparr>sd_red = red, sd_green = green, sd_nir = nir, sd_swir = swir\<rparr>"]
    by simp
  obtain r where r: "calculate_all_indices_try
      \<lparr>sd_red = red, sd_green = green, sd_nir = nir, sd_swir = swir\<rparr> = Inr r"
    using all_indices_total_try by blast
  have e: "\<exists>r. calculate_all_indices
              \<lparr>sd_red = red, sd_green = green, sd_nir = nir, sd_swir = swir\<rparr> = Inr r
         \<and> (red = [] \<or> nir = [] \<longrightarrow> map_of r ''ndvi'' = None)
         \<and> (nir = [] \<or> swir = [] \<longrightarrow> map_of r ''ndwi'' = None)
         \<and> (green = [] \<or> swir = [] \<longrightarrow> map_of r ''mndwi'' = None \<and> map_of r ''ndsi'' = None)"
    using all_indices_missing [OF r] r by (simp add: calculate_all_indices_def)
  from a b c d e show ?thesis by (intro conjI)
qed

theorem empty_band_returns_empty_witness:
  "calculate_ndvi [] [Fin 0.6, Fin 0.7] = Inr []
   \<and> calculate_spectral_indices fl_mul
        \<lparr>sd_red = [], sd_green = [Fin 0.1], sd_nir = [Fin 0.6, Fin 0.7], sd_swir = [Fin 0.2]\<rparr> None = Inr []"
  using empty_band_returns_empty
    [where fmul = fl_mul and red = "[]" and nir = "[Fin 0.6, Fin 0.7]" and swir = "[Fin 0.2]"
       and green = "[Fin 0.1]" and real_ndvi = None]
  by simp

text \<open>
  \<open>calculate_ndvi\<close> on an empty red band returns an empty array as an ordinary result.
\<close>

theorem empty_band_counterexample:
  "calculate_ndvi [] [Fin 0.6] = Inr []"
  by (simp add: calculate_ndvi_def calculate_ndvi_try_def np_add_def np_sub_def np_div_def
      np_binop_def eps_guard_def np_clip_def np_min_def)

end
